theory Spec2Isabelle
  imports Main "HOL-Library.Word"
begin

unbundle bit_operations_syntax

section \<open>Data model\<close>

text \<open>
  The program is \<^verbatim>\<open>src/main.py\<close>: a command-line sanitizer for spreadsheet files.
  Byte strings and text are both \<open>string\<close> here; paths are strings of ASCII characters.
\<close>

type_synonym bytes = string
type_synonym path = string

text \<open>The exceptions that the code and the library calls it makes can raise.\<close>

datatype exn =
    ParseError | AttributeError | TypeError | KeyError | IndexError | ValueError
  | NotImplementedError | StructError
  | FileNotFoundError | BadZipFile | EmptyDataError | ParserError | OtherError

subsection \<open>XML trees (xml.etree.ElementTree)\<close>

text \<open>
  An \<^verbatim>\<open>Element\<close> has a tag (in Clark notation, \<^verbatim>\<open>{uri}local\<close>), an attribute
  dictionary, optional text and tail, and its children in document order.
\<close>

datatype element =
  Element (tag: string) (attrib: "(string \<times> string) list")
    (etext: "string option") (etail: "string option") (children: "element list")

text \<open>\<^verbatim>\<open>Element.get(key)\<close>: the attribute's value, or \<^verbatim>\<open>None\<close>.\<close>

definition get :: "element \<Rightarrow> string \<Rightarrow> string option" where
  "get e key = map_of (attrib e) key"

text \<open>
  \<^verbatim>\<open>Element.get(key, default=..., namespaces=...)\<close>, as \<^verbatim>\<open>sanitize_ods\<close> calls it.
  The method of \<^verbatim>\<open>xml.etree.ElementTree\<close> takes \<^verbatim>\<open>key\<close> and \<^verbatim>\<open>default\<close> only:
  the call raises \<^verbatim>\<open>TypeError\<close> before any attribute is looked up.
\<close>

definition get_namespaces :: "element \<Rightarrow> string \<Rightarrow> string option \<Rightarrow> exn + string option" where
  "get_namespaces e key default_value = Inl TypeError"

text \<open>
  \<^verbatim>\<open>sheet.getparent()\<close>: an \<^verbatim>\<open>Element\<close> of \<^verbatim>\<open>xml.etree.ElementTree\<close> keeps no
  link to its parent and has no such method (it is lxml's), so reading the attribute
  raises \<^verbatim>\<open>AttributeError\<close>.
\<close>

definition getparent :: "element \<Rightarrow> exn + element" where
  "getparent e = Inl AttributeError"

text \<open>\<^verbatim>\<open>Element.iter(tag)\<close>: the element and its descendants with that tag, in document order.\<close>

fun iter :: "string \<Rightarrow> element \<Rightarrow> element list" where
  "iter t (Element tg a x l cs) =
     (if tg = t then [Element tg a x l cs] else []) @ concat (map (iter t) cs)"

text \<open>
  \<^verbatim>\<open>tree.findall('.//prefix:name', namespaces)\<close>: every descendant of the root (the root
  itself excluded) whose tag is \<^verbatim>\<open>{uri}name\<close>; the argument here is that resolved tag.
\<close>

definition findall :: "element \<Rightarrow> string \<Rightarrow> element list" where
  "findall tree t = concat (map (iter t) (children tree))"

text \<open>
  \<^verbatim>\<open>parent.remove(sub)\<close> seen from the root: the tree in which the node \<open>parent\<close> has lost
  its first child \<open>sub\<close>. Python compares nodes by identity; the model compares them by
  value. Both removal loops reach this only through \<open>getparent\<close>.
\<close>

fun remove :: "element \<Rightarrow> element \<Rightarrow> element \<Rightarrow> element" where
  "remove parent sub (Element tg a x l cs) =
     (if Element tg a x l cs = parent then Element tg a x l (remove1 sub cs)
      else Element tg a x l (map (remove parent sub) cs))"

subsection \<open>ZIP archives (zipfile)\<close>

text \<open>
  A \<^verbatim>\<open>ZipInfo\<close>: the name, the timestamp \<^verbatim>\<open>(year, month, day, hour, min, sec)\<close>, the
  compression method, the comment, the extra field and the two attribute words of a
  member. The method and the attributes have the widths of their fields in the central
  directory. Flags, versions, sizes, checksum and offsets are left out.

  An archive stands for a ZIP file within the limits of the plain format (names, comments
  and extra fields shorter than \<open>2^16\<close> bytes, fewer than \<open>2^16\<close> members, sizes and offsets below
  the ZIP64 limit) whose members are stored intact and unencrypted. The \<^verbatim>\<open>ZipInfo\<close> of a
  member of an archive is the one \<^verbatim>\<open>infolist()\<close> gives when the file is opened for reading.
\<close>

type_synonym date_time = "nat \<times> nat \<times> nat \<times> nat \<times> nat \<times> nat"

record zipinfo =
  filename :: string
  date_time :: date_time
  compress_type :: "16 word"
  comment :: bytes
  extra :: bytes
  internal_attr :: "16 word"
  external_attr :: "32 word"

definition ZIP_STORED :: "16 word" where "ZIP_STORED = 0"
definition ZIP_DEFLATED :: "16 word" where "ZIP_DEFLATED = 8"
definition ZIP_BZIP2 :: "16 word" where "ZIP_BZIP2 = 12"
definition ZIP_LZMA :: "16 word" where "ZIP_LZMA = 14"

text \<open>
  \<^verbatim>\<open>_check_compression\<close>: the exception raised for a method other than the four that
  \<^verbatim>\<open>zipfile\<close> implements (the modules \<^verbatim>\<open>zlib\<close>, \<^verbatim>\<open>bz2\<close> and \<^verbatim>\<open>lzma\<close> are present).
\<close>

definition check_compression :: "16 word \<Rightarrow> exn option" where
  "check_compression compression =
     (if compression = ZIP_STORED then None
      else if compression = ZIP_DEFLATED then None
      else if compression = ZIP_BZIP2 then None
      else if compression = ZIP_LZMA then None
      else Some NotImplementedError)"

text \<open>
  The timestamp in a header (\<^verbatim>\<open>FileHeader\<close>, \<^verbatim>\<open>_write_end_record\<close>):
  \<^verbatim>\<open>dosdate = (dt[0] - 1980) << 9 | dt[1] << 5 | dt[2]\<close> and
  \<^verbatim>\<open>dostime = dt[3] << 11 | dt[4] << 5 | (dt[5] // 2)\<close>, each packed into 16 bits;
  \<^verbatim>\<open>struct.pack\<close> raises \<^verbatim>\<open>struct.error\<close> for a value outside \<open>0..65535\<close>.
\<close>

definition dos_date :: "date_time \<Rightarrow> exn + nat" where
  "dos_date dt =
     (case dt of (year, month, day, hour, minute, sec) \<Rightarrow>
        if year < 1980 then Inl StructError
        else (let dosdate = push_bit 9 (year - 1980) OR push_bit 5 month OR day
              in if dosdate \<le> 65535 then Inr dosdate else Inl StructError))"

definition dos_time :: "date_time \<Rightarrow> exn + nat" where
  "dos_time dt =
     (case dt of (year, month, day, hour, minute, sec) \<Rightarrow>
        (let dostime = push_bit 11 hour OR push_bit 5 minute OR (sec div 2)
         in if dostime \<le> 65535 then Inr dostime else Inl StructError))"

text \<open>
  The timestamp that \<^verbatim>\<open>_RealGetContents\<close> makes of the two header fields:
  \<^verbatim>\<open>((d>>9)+1980, (d>>5)&0xF, d&0x1F, t>>11, (t>>5)&0x3F, (t&0x1F) * 2)\<close>.
\<close>

definition decode_date_time :: "nat \<Rightarrow> nat \<Rightarrow> date_time" where
  "decode_date_time d t =
     (drop_bit 9 d + 1980, drop_bit 5 d AND 15, d AND 31,
      drop_bit 11 t, drop_bit 5 t AND 63, (t AND 31) * 2)"

text \<open>
  What a reader finds for a \<^verbatim>\<open>ZipInfo\<close> that was written (\<^verbatim>\<open>_open_to_write\<close>): an
  \<^verbatim>\<open>external_attr\<close> of 0 has become \<^verbatim>\<open>0o600 << 16\<close>, \<^verbatim>\<open>_writecheck\<close> has refused a method
  that is not implemented, and the timestamp has gone through the header encoding.
\<close>

definition stored :: "zipinfo \<Rightarrow> exn + zipinfo" where
  "stored zinfo =
     (case check_compression (compress_type zinfo) of
        Some e \<Rightarrow> Inl e
      | None \<Rightarrow>
          (case dos_date (date_time zinfo) of
             Inl e \<Rightarrow> Inl e
           | Inr dosdate \<Rightarrow>
               (case dos_time (date_time zinfo) of
                  Inl e \<Rightarrow> Inl e
                | Inr dostime \<Rightarrow>
                    Inr (zinfo\<lparr>date_time := decode_date_time dosdate dostime,
                               external_attr :=
                                 (if external_attr zinfo = 0 then push_bit 16 384
                                  else external_attr zinfo)\<rparr>))))"

text \<open>A member: its \<^verbatim>\<open>ZipInfo\<close> and its (uncompressed) payload. An archive is the list
  of its members in directory order; names may repeat.\<close>

type_synonym entry = "zipinfo \<times> bytes"

text \<open>
  \<^verbatim>\<open>ZipFile.NameToInfo\<close>: filled member by member when the archive is opened, so that a
  later member replaces an earlier one of the same name.
\<close>

definition NameToInfo :: "entry list \<Rightarrow> (string \<rightharpoonup> entry)" where
  "NameToInfo zin = fold (\<lambda>e m. m(filename (fst e) \<mapsto> e)) zin Map.empty"

text \<open>
  \<^verbatim>\<open>zin.read(name)\<close>: the payload of the member \<^verbatim>\<open>NameToInfo\<close> has for the name;
  \<^verbatim>\<open>_get_decompressor\<close> raises for a method that is not implemented.
\<close>

definition read :: "entry list \<Rightarrow> string \<Rightarrow> exn + bytes" where
  "read zin name =
     (case NameToInfo zin name of
        None \<Rightarrow> Inl KeyError
      | Some e \<Rightarrow>
          (case check_compression (compress_type (fst e)) of
             Some x \<Rightarrow> Inl x
           | None \<Rightarrow> Inr (snd e)))"

text \<open>\<^verbatim>\<open>zout.writestr(item, buffer)\<close> with a \<^verbatim>\<open>ZipInfo\<close>: the member is appended; a reader
  of the output finds it under the \<^verbatim>\<open>ZipInfo\<close> as stored.\<close>

definition writestr_info :: "entry list \<Rightarrow> zipinfo \<Rightarrow> bytes \<Rightarrow> exn + entry list" where
  "writestr_info zout zinfo data =
     (case stored zinfo of
        Inl e \<Rightarrow> Inl e
      | Inr zinfo' \<Rightarrow> Inr (zout @ [(zinfo', data)]))"

text \<open>
  \<^verbatim>\<open>zout.writestr(filename, content)\<close> with a name: a new \<^verbatim>\<open>ZipInfo\<close> is made from the
  name (cut at a null byte) and the clock, which must not read a year before 1980; it
  takes the archive's compression and gets the permissions \<^verbatim>\<open>0o600 << 16\<close> (for a name
  ending in a slash, \<^verbatim>\<open>0o40775 << 16 | 0x10\<close>); \<^verbatim>\<open>filename[-1]\<close> raises on the empty name.
  It is then written as a \<^verbatim>\<open>ZipInfo\<close> passed by the caller is.
\<close>

definition writestr_arcname ::
  "16 word \<Rightarrow> date_time \<Rightarrow> entry list \<Rightarrow> string \<Rightarrow> bytes \<Rightarrow> exn + entry list" where
  "writestr_arcname compression now zout arcname data =
     (let name = takeWhile (\<lambda>c. c \<noteq> CHR 0x00) arcname
      in if fst now < 1980 then Inl ValueError
         else if name = [] then Inl IndexError
         else writestr_info zout
                \<lparr>filename = name, date_time = now, compress_type = compression,
                 comment = [], extra = [], internal_attr = 0,
                 external_attr =
                   (if last name = CHR ''/'' then push_bit 16 16893 OR 16 else push_bit 16 384)\<rparr>
                data)"

subsection \<open>Data frames (pandas)\<close>

text \<open>
  A data frame: the column names and the rows. A cell holds a value of the column's type
  (the type parameter: the program never looks into a value), or is missing (NaN), which
  is \<open>None\<close>.
\<close>

record 'v dataframe =
  columns :: "string list"
  rows :: "'v option list list"

text \<open>\<^verbatim>\<open>df.dropna()\<close>: the rows that have no missing value, in their order.\<close>

definition dropna :: "'v dataframe \<Rightarrow> 'v dataframe" where
  "dropna df = df\<lparr>rows := filter (\<lambda>r. None \<notin> set r) (rows df)\<rparr>"

subsection \<open>Files and the library\<close>

text \<open>
  A file is either a structurally valid ZIP archive, given by its members, or any other
  sequence of bytes. The file system maps a path to the file there.
\<close>

datatype disk_file = ZipArchive "entry list" | Plain bytes

type_synonym filesystem = "path \<rightharpoonup> disk_file"

text \<open>
  The library functions whose results the program only passes on are parameters:
  \<^verbatim>\<open>ET.fromstring\<close> (which raises on malformed XML), \<^verbatim>\<open>ET.tostring(tree, encoding='utf8')\<close>,
  the clock \<^verbatim>\<open>time.localtime(time.time())[:6]\<close> (one reading for a run),
  \<^verbatim>\<open>pd.read_csv\<close> on an existing file, and \<^verbatim>\<open>df.to_csv(path, index=False)\<close>.
\<close>

record 'v library =
  fromstring :: "bytes \<Rightarrow> exn + element"
  tostring :: "element \<Rightarrow> bytes"
  localtime :: date_time
  read_csv :: "disk_file \<Rightarrow> exn + 'v dataframe"
  to_csv :: "'v dataframe \<Rightarrow> bytes"

section \<open>The sanitizers\<close>

subsection \<open>sanitize-xlsx\<close>

text \<open>Lines 66-69: the \<^verbatim>\<open>sheetId\<close>s of the sheets whose \<^verbatim>\<open>state\<close> is hidden or veryHidden.\<close>

fun collect_sheets :: "element list \<Rightarrow> string option list \<Rightarrow> string option list" where
  "collect_sheets [] sheets_to_remove = sheets_to_remove"
| "collect_sheets (sheet # sheets) sheets_to_remove =
     (if get sheet ''state'' = Some ''hidden'' \<or> get sheet ''state'' = Some ''veryHidden''
      then collect_sheets sheets (sheets_to_remove @ [get sheet ''sheetId''])
      else collect_sheets sheets sheets_to_remove)"

text \<open>Lines 72-74: every sheet whose \<^verbatim>\<open>sheetId\<close> was collected is removed from its parent.\<close>

fun remove_sheets :: "element \<Rightarrow> element list \<Rightarrow> string option list \<Rightarrow> exn + element" where
  "remove_sheets tree [] sheets_to_remove = Inr tree"
| "remove_sheets tree (sheet # sheets) sheets_to_remove =
     (if get sheet ''sheetId'' \<in> set sheets_to_remove then
        (case getparent sheet of
           Inl e \<Rightarrow> Inl e
         | Inr parent \<Rightarrow> remove_sheets (remove parent sheet tree) sheets sheets_to_remove)
      else remove_sheets tree sheets sheets_to_remove)"

definition sheet_tag :: string where
  "sheet_tag = ''{http://schemas.openxmlformats.org/spreadsheetml/2006/main}sheet''"

text \<open>Lines 58-75, the body of the inner \<^verbatim>\<open>try\<close>: the new content, or the exception raised.\<close>

definition prune_workbook :: "'v library \<Rightarrow> bytes \<Rightarrow> exn + bytes" where
  "prune_workbook lib content =
     (case fromstring lib content of
        Inl e \<Rightarrow> Inl e
      | Inr tree \<Rightarrow>
          (let sheets = findall tree sheet_tag;
               sheets_to_remove = collect_sheets sheets []
           in case remove_sheets tree sheets sheets_to_remove of
                Inl e \<Rightarrow> Inl e
              | Inr tree' \<Rightarrow> Inr (tostring lib tree')))"

text \<open>
  Lines 46-87, the body of the loop over \<^verbatim>\<open>zin.infolist()\<close>: the output archive after the
  item, or the exception that leaves the loop. \<open>zin_read\<close> is \<^verbatim>\<open>zin.read\<close>.
\<close>

definition xlsx_item ::
  "'v library \<Rightarrow> (string \<Rightarrow> exn + bytes) \<Rightarrow> bool \<Rightarrow> bool \<Rightarrow> zipinfo \<Rightarrow> entry list \<Rightarrow> exn + entry list" where
  "xlsx_item lib zin_read remove_macros remove_hidden_sheets item zout =
     (if remove_macros \<and> filename item = ''xl/vbaProject.bin'' then Inr zout
      else if remove_hidden_sheets \<and> filename item = ''xl/workbook.xml'' then
        (case zin_read (filename item) of
           Inl e \<Rightarrow> Inl e
         | Inr content \<Rightarrow>
             (case prune_workbook lib content of
                Inl e \<Rightarrow>
                  (case zin_read (filename item) of
                     Inl e' \<Rightarrow> Inl e'
                   | Inr original \<Rightarrow>
                       writestr_arcname ZIP_DEFLATED (localtime lib) zout (filename item) original)
              | Inr content' \<Rightarrow>
                  writestr_arcname ZIP_DEFLATED (localtime lib) zout (filename item) content'))
      else
        (case zin_read (filename item) of
           Inl e \<Rightarrow> Inl e
         | Inr buffer \<Rightarrow> writestr_info zout item buffer))"

text \<open>
  The \<^verbatim>\<open>for\<close> loop: the items in order; an exception ends it. The result is the output
  archive as written so far and the exception, if any.
\<close>

fun for_items ::
  "(zipinfo \<Rightarrow> entry list \<Rightarrow> exn + entry list) \<Rightarrow> zipinfo list \<Rightarrow> entry list \<Rightarrow> entry list \<times> exn option" where
  "for_items body [] zout = (zout, None)"
| "for_items body (item # items) zout =
     (case body item zout of
        Inl e \<Rightarrow> (zout, Some e)
      | Inr zout' \<Rightarrow> for_items body items zout')"

text \<open>
  \<^verbatim>\<open>zin.read\<close> during the loop. The output file has been opened for writing, and so
  truncated, by then: when both paths name one file, the member's header is no longer
  there and the read raises \<^verbatim>\<open>BadZipFile\<close>.
\<close>

definition read_member :: "path \<Rightarrow> path \<Rightarrow> entry list \<Rightarrow> string \<Rightarrow> exn + bytes" where
  "read_member input_file output_file zin name =
     (if input_file = output_file then Inl BadZipFile else read zin name)"

text \<open>
  \<^verbatim>\<open>sanitize_xlsx\<close>: the returned flag and the file system afterwards. Every exception
  is caught and turned into \<^verbatim>\<open>False\<close>; leaving the \<^verbatim>\<open>with\<close> block closes the output
  archive with what was written.
\<close>

definition sanitize_xlsx ::
  "'v library \<Rightarrow> path \<Rightarrow> path \<Rightarrow> bool \<Rightarrow> bool \<Rightarrow> bool \<Rightarrow> filesystem \<Rightarrow> bool \<times> filesystem" where
  "sanitize_xlsx lib input_file output_file remove_macros remove_hidden_sheets overwrite fs =
     (if fs output_file \<noteq> None \<and> \<not> overwrite then (False, fs)
      else
        (case fs input_file of
           None \<Rightarrow> (False, fs)
         | Some (Plain b) \<Rightarrow> (False, fs)
         | Some (ZipArchive zin) \<Rightarrow>
             (case for_items
                     (xlsx_item lib (read_member input_file output_file zin)
                        remove_macros remove_hidden_sheets)
                     (map fst zin) [] of
                (zout, None) \<Rightarrow> (True, fs(output_file \<mapsto> ZipArchive zout))
              | (zout, Some e) \<Rightarrow> (False, fs(output_file \<mapsto> ZipArchive zout)))))"

subsection \<open>sanitize-ods\<close>

text \<open>Lines 138-142: the tables whose \<^verbatim>\<open>display\<close> attribute reads false.\<close>

fun collect_tables :: "element list \<Rightarrow> element list \<Rightarrow> exn + element list" where
  "collect_tables [] tables_to_remove = Inr tables_to_remove"
| "collect_tables (table # tables) tables_to_remove =
     (case get_namespaces table ''table:display'' (Some ''true'') of
        Inl e \<Rightarrow> Inl e
      | Inr display \<Rightarrow>
          (if display = Some ''false'' then
             (case get_namespaces table ''table:name'' None of
                Inl e \<Rightarrow> Inl e
              | Inr table_name \<Rightarrow> collect_tables tables (tables_to_remove @ [table]))
           else collect_tables tables tables_to_remove))"

text \<open>Lines 144-145: each collected table is removed from its parent.\<close>

fun remove_tables :: "element \<Rightarrow> element list \<Rightarrow> exn + element" where
  "remove_tables tree [] = Inr tree"
| "remove_tables tree (table # tables_to_remove) =
     (case getparent table of
        Inl e \<Rightarrow> Inl e
      | Inr parent \<Rightarrow> remove_tables (remove parent table tree) tables_to_remove)"

definition table_tag :: string where
  "table_tag = ''{urn:oasis:names:tc:opendocument:xmlns:table:1.0}table''"

text \<open>Lines 132-147, the body of the inner \<^verbatim>\<open>try\<close>.\<close>

definition prune_content :: "'v library \<Rightarrow> bytes \<Rightarrow> exn + bytes" where
  "prune_content lib content =
     (case fromstring lib content of
        Inl e \<Rightarrow> Inl e
      | Inr tree \<Rightarrow>
          (case collect_tables (findall tree table_tag) [] of
             Inl e \<Rightarrow> Inl e
           | Inr tables_to_remove \<Rightarrow>
               (case remove_tables tree tables_to_remove of
                  Inl e \<Rightarrow> Inl e
                | Inr tree' \<Rightarrow> Inr (tostring lib tree'))))"

text \<open>Lines 125-159, the body of the loop.\<close>

definition ods_item ::
  "'v library \<Rightarrow> (string \<Rightarrow> exn + bytes) \<Rightarrow> bool \<Rightarrow> zipinfo \<Rightarrow> entry list \<Rightarrow> exn + entry list" where
  "ods_item lib zin_read remove_hidden_sheets item zout =
     (if remove_hidden_sheets \<and> filename item = ''content.xml'' then
        (case zin_read (filename item) of
           Inl e \<Rightarrow> Inl e
         | Inr content \<Rightarrow>
             (case prune_content lib content of
                Inl e \<Rightarrow>
                  (case zin_read (filename item) of
                     Inl e' \<Rightarrow> Inl e'
                   | Inr original \<Rightarrow>
                       writestr_arcname ZIP_DEFLATED (localtime lib) zout (filename item) original)
              | Inr content' \<Rightarrow>
                  writestr_arcname ZIP_DEFLATED (localtime lib) zout (filename item) content'))
      else
        (case zin_read (filename item) of
           Inl e \<Rightarrow> Inl e
         | Inr buffer \<Rightarrow> writestr_info zout item buffer))"

text \<open>\<^verbatim>\<open>sanitize_ods\<close>; \<^verbatim>\<open>remove_macros\<close> only logs a warning.\<close>

definition sanitize_ods ::
  "'v library \<Rightarrow> path \<Rightarrow> path \<Rightarrow> bool \<Rightarrow> bool \<Rightarrow> bool \<Rightarrow> filesystem \<Rightarrow> bool \<times> filesystem" where
  "sanitize_ods lib input_file output_file remove_macros remove_hidden_sheets overwrite fs =
     (if fs output_file \<noteq> None \<and> \<not> overwrite then (False, fs)
      else
        (case fs input_file of
           None \<Rightarrow> (False, fs)
         | Some (Plain b) \<Rightarrow> (False, fs)
         | Some (ZipArchive zin) \<Rightarrow>
             (case for_items
                     (ods_item lib (read_member input_file output_file zin) remove_hidden_sheets)
                     (map fst zin) [] of
                (zout, None) \<Rightarrow> (True, fs(output_file \<mapsto> ZipArchive zout))
              | (zout, Some e) \<Rightarrow> (False, fs(output_file \<mapsto> ZipArchive zout)))))"

subsection \<open>sanitize-csv\<close>

definition sanitize_csv :: "'v library \<Rightarrow> path \<Rightarrow> path \<Rightarrow> bool \<Rightarrow> filesystem \<Rightarrow> bool \<times> filesystem" where
  "sanitize_csv lib input_file output_file overwrite fs =
     (if fs output_file \<noteq> None \<and> \<not> overwrite then (False, fs)
      else
        (case fs input_file of
           None \<Rightarrow> (False, fs)
         | Some f \<Rightarrow>
             (case read_csv lib f of
                Inl e \<Rightarrow> (False, fs)
              | Inr df \<Rightarrow> (True, fs(output_file \<mapsto> Plain (to_csv lib (dropna df)))))))"

subsection \<open>main\<close>

text \<open>\<^verbatim>\<open>str.rfind\<close> of one character: the last index where it stands, or \<open>-1\<close>.\<close>

fun rfind_from :: "string \<Rightarrow> char \<Rightarrow> int \<Rightarrow> int \<Rightarrow> int" where
  "rfind_from [] c i found = found"
| "rfind_from (x # xs) c i found = rfind_from xs c (i + 1) (if x = c then i else found)"

definition rfind :: "string \<Rightarrow> char \<Rightarrow> int" where
  "rfind p c = rfind_from p c 0 (- 1)"

text \<open>
  \<^verbatim>\<open>os.path.splitext\<close> (posixpath): the extension starts at the last dot of the last
  path component, unless only dots stand before it in that component.
\<close>

definition splitext :: "path \<Rightarrow> path \<times> string" where
  "splitext p =
     (let sepIndex = rfind p CHR ''/''; dotIndex = rfind p CHR ''.''
      in if dotIndex > sepIndex \<and>
            list_ex (\<lambda>c. c \<noteq> CHR ''.'')
              (take (nat (dotIndex - (sepIndex + 1))) (drop (nat (sepIndex + 1)) p))
         then (take (nat dotIndex) p, drop (nat dotIndex) p)
         else (p, []))"

text \<open>\<^verbatim>\<open>str.lower\<close> on ASCII text.\<close>

definition lower :: "string \<Rightarrow> string" where
  "lower s =
     map (\<lambda>c. case map_of (zip ''ABCDEFGHIJKLMNOPQRSTUVWXYZ'' ''abcdefghijklmnopqrstuvwxyz'') c of
                 None \<Rightarrow> c
               | Some l \<Rightarrow> l) s"

text \<open>\<^verbatim>\<open>main\<close>: the exit status given to \<^verbatim>\<open>sys.exit\<close> and the file system afterwards.\<close>

definition main ::
  "'v library \<Rightarrow> path \<Rightarrow> path \<Rightarrow> bool \<Rightarrow> bool \<Rightarrow> bool \<Rightarrow> filesystem \<Rightarrow> nat \<times> filesystem" where
  "main lib input_file output_file remove_macros remove_hidden_sheets overwrite fs =
     (let file_extension = lower (snd (splitext input_file))
      in if file_extension = ''.xlsx'' then
           (case sanitize_xlsx lib input_file output_file remove_macros remove_hidden_sheets overwrite fs of
              (ok, fs') \<Rightarrow> (if \<not> ok then (1, fs') else (0, fs')))
         else if file_extension = ''.ods'' then
           (case sanitize_ods lib input_file output_file remove_macros remove_hidden_sheets overwrite fs of
              (ok, fs') \<Rightarrow> (if \<not> ok then (1, fs') else (0, fs')))
         else if file_extension = ''.csv'' then
           (case sanitize_csv lib input_file output_file overwrite fs of
              (ok, fs') \<Rightarrow> (if \<not> ok then (1, fs') else (0, fs')))
         else (1, fs))"

section \<open>Auxiliary notions for the proofs\<close>

text \<open>A sheet that the first loop of \<^verbatim>\<open>sanitize_xlsx\<close> collects (line 67).\<close>

definition hidden_state :: "element \<Rightarrow> bool" where
  "hidden_state s = (get s ''state'' = Some ''hidden'' \<or> get s ''state'' = Some ''veryHidden'')"

text \<open>
  A timestamp whose fields fit the bit fields of the header; \<open>stored\<close> succeeds on it
  (lemma \<open>stored_copyable\<close>), and every timestamp decoded from a header is one (lemma
  \<open>decode_zip_date\<close>). For the clock it says that the year is between 1980 and 2107.
\<close>

definition zip_date :: "date_time \<Rightarrow> bool" where
  "zip_date dt =
     (case dt of (year, month, day, hour, minute, sec) \<Rightarrow>
        1980 \<le> year \<and> year \<le> 2107 \<and> month < 16 \<and> day < 32 \<and> hour < 32 \<and> minute < 64 \<and> sec < 64)"

text \<open>The timestamp with its seconds rounded down to an even number.\<close>

definition even_seconds :: "date_time \<Rightarrow> date_time" where
  "even_seconds dt =
     (case dt of (year, month, day, hour, minute, sec) \<Rightarrow>
        (year, month, day, hour, minute, 2 * (sec div 2)))"

text \<open>The closed form of \<open>stored\<close> where it succeeds.\<close>

definition as_stored :: "zipinfo \<Rightarrow> zipinfo" where
  "as_stored zinfo =
     zinfo\<lparr>date_time := even_seconds (date_time zinfo),
           external_attr := (if external_attr zinfo = 0 then push_bit 16 384 else external_attr zinfo)\<rparr>"

text \<open>
  An archive every member of which \<^verbatim>\<open>zipfile\<close> can decompress and write again: the method
  is one of the four implemented, and the timestamp fits the header.
\<close>

definition decodable :: "entry list \<Rightarrow> bool" where
  "decodable zin =
     (\<forall>e \<in> set zin. check_compression (compress_type (fst e)) = None \<and> zip_date (date_time (fst e)))"

text \<open>
  What a reader finds for the \<^verbatim>\<open>ZipInfo\<close> that \<open>writestr_arcname\<close> makes for a non-empty name
  that does not end in a slash, in an archive opened with \<^verbatim>\<open>ZIP_DEFLATED\<close>.
\<close>

definition fresh_zipinfo :: "'v library \<Rightarrow> string \<Rightarrow> zipinfo" where
  "fresh_zipinfo lib name =
     \<lparr>filename = name, date_time = even_seconds (localtime lib), compress_type = ZIP_DEFLATED,
      comment = [], extra = [], internal_attr = 0, external_attr = push_bit 16 384\<rparr>"

text \<open>
  What one input member contributes to the output when its payload can be read and its
  \<^verbatim>\<open>ZipInfo\<close> stored: the closed form of one pass through the loop body, proved equal to it
  in \<open>xlsx_item_written\<close> and \<open>ods_item_written\<close> below.
\<close>

definition xlsx_written :: "'v library \<Rightarrow> bool \<Rightarrow> bool \<Rightarrow> entry \<Rightarrow> entry list" where
  "xlsx_written lib remove_macros remove_hidden_sheets e =
     (if remove_macros \<and> filename (fst e) = ''xl/vbaProject.bin'' then []
      else if remove_hidden_sheets \<and> filename (fst e) = ''xl/workbook.xml'' then
        [(fresh_zipinfo lib ''xl/workbook.xml'',
          case prune_workbook lib (snd e) of Inl x \<Rightarrow> snd e | Inr content' \<Rightarrow> content')]
      else [(as_stored (fst e), snd e)])"

definition ods_written :: "'v library \<Rightarrow> bool \<Rightarrow> entry \<Rightarrow> entry list" where
  "ods_written lib remove_hidden_sheets e =
     (if remove_hidden_sheets \<and> filename (fst e) = ''content.xml'' then
        [(fresh_zipinfo lib ''content.xml'',
          case prune_content lib (snd e) of Inl x \<Rightarrow> snd e | Inr content' \<Rightarrow> content')]
      else [(as_stored (fst e), snd e)])"

text \<open>The name and the payload of a member.\<close>

definition name_payload :: "entry \<Rightarrow> string \<times> bytes" where
  "name_payload e = (filename (fst e), snd e)"

section \<open>Sample inputs\<close>

text \<open>
  Concrete archives, documents, tables and a library instance on which the model is run.
  The library instance parses the documents below into the trees given for them, writes
  these trees as \<^verbatim>\<open>ET.tostring(tree, encoding='utf8')\<close> does, and refuses every other byte
  string.
\<close>

definition demo_info :: "string \<Rightarrow> zipinfo" where
  "demo_info name =
     \<lparr>filename = name, date_time = (2020, 5, 17, 9, 30, 0), compress_type = ZIP_STORED,
      comment = [], extra = [], internal_attr = 0, external_attr = push_bit 16 420\<rparr>"

text \<open>A \<^verbatim>\<open>ZipInfo\<close> as many writers leave it: deflated, no permissions recorded.\<close>

definition bare_info :: "string \<Rightarrow> zipinfo" where
  "bare_info name =
     \<lparr>filename = name, date_time = (2019, 11, 2, 8, 15, 42), compress_type = ZIP_DEFLATED,
      comment = [], extra = [], internal_attr = 0, external_attr = 0\<rparr>"

definition dq :: "string \<Rightarrow> string" where
  "dq s = CHR 0x22 # s @ [CHR 0x22]"

definition xml_declaration :: string where
  "xml_declaration = ''<?xml version='1.0' encoding='utf8'?>'' @ [CHR 0x0A]"

definition main_ns :: string where
  "main_ns = ''http://schemas.openxmlformats.org/spreadsheetml/2006/main''"

definition table_ns :: string where
  "table_ns = ''{urn:oasis:names:tc:opendocument:xmlns:table:1.0}''"

definition hidden_book_xml :: bytes where
  "hidden_book_xml = ''<workbook xmlns='http://schemas.openxmlformats.org/spreadsheetml/2006/main'><sheets><sheet name='Sheet1' sheetId='1'/><sheet name='Secret' sheetId='2' state='hidden'/></sheets></workbook>''"

definition hidden_book :: element where
  "hidden_book =
     Element ''{http://schemas.openxmlformats.org/spreadsheetml/2006/main}workbook'' [] None None
       [Element ''{http://schemas.openxmlformats.org/spreadsheetml/2006/main}sheets'' [] None None
          [Element sheet_tag [(''name'', ''Sheet1''), (''sheetId'', ''1'')] None None [],
           Element sheet_tag [(''name'', ''Secret''), (''sheetId'', ''2''), (''state'', ''hidden'')]
             None None []]]"

definition hidden_book_out :: bytes where
  "hidden_book_out =
     xml_declaration @ ''<ns0:workbook xmlns:ns0='' @ dq main_ns @
     ''><ns0:sheets><ns0:sheet name='' @ dq ''Sheet1'' @ '' sheetId='' @ dq ''1'' @
     '' /><ns0:sheet name='' @ dq ''Secret'' @ '' sheetId='' @ dq ''2'' @ '' state='' @ dq ''hidden'' @
     '' /></ns0:sheets></ns0:workbook>''"

definition plain_book_xml :: bytes where
  "plain_book_xml = ''<workbook xmlns='http://schemas.openxmlformats.org/spreadsheetml/2006/main'><sheets><sheet name='Sheet1' sheetId='1'/></sheets></workbook>''"

definition plain_book :: element where
  "plain_book =
     Element ''{http://schemas.openxmlformats.org/spreadsheetml/2006/main}workbook'' [] None None
       [Element ''{http://schemas.openxmlformats.org/spreadsheetml/2006/main}sheets'' [] None None
          [Element sheet_tag [(''name'', ''Sheet1''), (''sheetId'', ''1'')] None None []]]"

definition plain_book_out :: bytes where
  "plain_book_out =
     xml_declaration @ ''<ns0:workbook xmlns:ns0='' @ dq main_ns @
     ''><ns0:sheets><ns0:sheet name='' @ dq ''Sheet1'' @ '' sheetId='' @ dq ''1'' @
     '' /></ns0:sheets></ns0:workbook>''"

definition hidden_tables_xml :: bytes where
  "hidden_tables_xml = ''<office:document-content xmlns:office='urn:oasis:names:tc:opendocument:xmlns:office:1.0' xmlns:table='urn:oasis:names:tc:opendocument:xmlns:table:1.0'><office:body><office:spreadsheet><table:table table:name='Data'/><table:table table:name='Secret' table:display='false'/></office:spreadsheet></office:body></office:document-content>''"

definition hidden_tables :: element where
  "hidden_tables =
     Element ''{urn:oasis:names:tc:opendocument:xmlns:office:1.0}document-content'' [] None None
       [Element ''{urn:oasis:names:tc:opendocument:xmlns:office:1.0}body'' [] None None
          [Element ''{urn:oasis:names:tc:opendocument:xmlns:office:1.0}spreadsheet'' [] None None
             [Element table_tag [(table_ns @ ''name'', ''Data'')] None None [],
              Element table_tag [(table_ns @ ''name'', ''Secret''), (table_ns @ ''display'', ''false'')]
                None None []]]]"

definition hidden_tables_out :: bytes where
  "hidden_tables_out =
     xml_declaration @ ''<ns0:document-content xmlns:ns0='' @
     dq ''urn:oasis:names:tc:opendocument:xmlns:office:1.0'' @ '' xmlns:ns1='' @
     dq ''urn:oasis:names:tc:opendocument:xmlns:table:1.0'' @
     ''><ns0:body><ns0:spreadsheet><ns1:table ns1:name='' @ dq ''Data'' @
     '' /><ns1:table ns1:name='' @ dq ''Secret'' @ '' ns1:display='' @ dq ''false'' @
     '' /></ns0:spreadsheet></ns0:body></ns0:document-content>''"

definition no_tables_xml :: bytes where
  "no_tables_xml = ''<office:document-content xmlns:office='urn:oasis:names:tc:opendocument:xmlns:office:1.0'><office:body><office:spreadsheet/></office:body></office:document-content>''"

definition no_tables :: element where
  "no_tables =
     Element ''{urn:oasis:names:tc:opendocument:xmlns:office:1.0}document-content'' [] None None
       [Element ''{urn:oasis:names:tc:opendocument:xmlns:office:1.0}body'' [] None None
          [Element ''{urn:oasis:names:tc:opendocument:xmlns:office:1.0}spreadsheet'' [] None None []]]"

definition no_tables_out :: bytes where
  "no_tables_out =
     xml_declaration @ ''<ns0:document-content xmlns:ns0='' @
     dq ''urn:oasis:names:tc:opendocument:xmlns:office:1.0'' @
     ''><ns0:body><ns0:spreadsheet /></ns0:body></ns0:document-content>''"

definition broken_xml :: bytes where
  "broken_xml = ''<workbook><sheets>''"

text \<open>
  The values of the sample tables: an integer of an \<^verbatim>\<open>int64\<close> column, a float of a
  \<^verbatim>\<open>float64\<close> column (the sample tables only hold whole numbers: \<open>Float64 n\<close> is the float
  \<open>n.0\<close>), and a string of an \<^verbatim>\<open>object\<close> column.
\<close>

datatype scalar = Int64 nat | Float64 nat | Object string

fun digits :: "nat \<Rightarrow> string" where
  "digits n =
     (if n < 10 then [''0123456789'' ! n]
      else digits (n div 10) @ [''0123456789'' ! (n mod 10)])"

declare digits.simps [simp del]

text \<open>A field as \<^verbatim>\<open>to_csv\<close> writes it; a missing value is written as the empty field.\<close>

definition render :: "scalar option \<Rightarrow> string" where
  "render cell =
     (case cell of
        None \<Rightarrow> []
      | Some (Int64 n) \<Rightarrow> digits n
      | Some (Float64 n) \<Rightarrow> digits n @ ''.0''
      | Some (Object s) \<Rightarrow> s)"

definition csv_line :: "string list \<Rightarrow> string" where
  "csv_line cells = (case cells of [] \<Rightarrow> [] | f # r \<Rightarrow> f @ concat (map (\<lambda>x. CHR '','' # x) r))"

definition lines :: "string list \<Rightarrow> bytes" where
  "lines ls = concat (map (\<lambda>l. l @ [CHR 0x0A]) ls)"

text \<open>Five data rows, the second without a name.\<close>

definition people_csv :: bytes where
  "people_csv = lines [''id,name'', ''1,ann'', ''2,'', ''3,cy'', ''4,dee'', ''5,eve'']"

definition people_frame :: "scalar dataframe" where
  "people_frame =
     \<lparr>columns = [''id'', ''name''],
      rows = [[Some (Int64 1), Some (Object ''ann'')], [Some (Int64 2), None],
              [Some (Int64 3), Some (Object ''cy'')], [Some (Int64 4), Some (Object ''dee'')],
              [Some (Int64 5), Some (Object ''eve'')]]\<rparr>"

text \<open>
  Five data rows, the second without an id. \<^verbatim>\<open>pd.read_csv\<close> gives a numeric column with a
  gap the type \<^verbatim>\<open>float64\<close>.
\<close>

definition gap_csv :: bytes where
  "gap_csv = lines [''id,name'', ''1,ann'', '',bob'', ''3,cy'', ''4,dee'', ''5,eve'']"

definition gap_frame :: "scalar dataframe" where
  "gap_frame =
     \<lparr>columns = [''id'', ''name''],
      rows = [[Some (Float64 1), Some (Object ''ann'')], [None, Some (Object ''bob'')],
              [Some (Float64 3), Some (Object ''cy'')], [Some (Float64 4), Some (Object ''dee'')],
              [Some (Float64 5), Some (Object ''eve'')]]\<rparr>"

text \<open>
  Five data rows, the second without a name, the third with the name \<^verbatim>\<open>NA\<close>, which is one
  of the strings that \<^verbatim>\<open>pd.read_csv\<close> reads as a missing value.
\<close>

definition na_csv :: bytes where
  "na_csv = lines [''id,name'', ''1,ann'', ''2,'', ''3,NA'', ''4,dee'', ''5,eve'']"

definition na_frame :: "scalar dataframe" where
  "na_frame =
     \<lparr>columns = [''id'', ''name''],
      rows = [[Some (Int64 1), Some (Object ''ann'')], [Some (Int64 2), None],
              [Some (Int64 3), None], [Some (Int64 4), Some (Object ''dee'')],
              [Some (Int64 5), Some (Object ''eve'')]]\<rparr>"

definition demo_lib :: "scalar library" where
  "demo_lib =
     \<lparr>fromstring = (\<lambda>b. if b = hidden_book_xml \<or> b = hidden_book_out then Inr hidden_book
                         else if b = plain_book_xml \<or> b = plain_book_out then Inr plain_book
                         else if b = hidden_tables_xml \<or> b = hidden_tables_out then Inr hidden_tables
                         else if b = no_tables_xml \<or> b = no_tables_out then Inr no_tables
                         else Inl ParseError),
      tostring = (\<lambda>t. if t = hidden_book then hidden_book_out
                       else if t = plain_book then plain_book_out
                       else if t = hidden_tables then hidden_tables_out
                       else if t = no_tables then no_tables_out
                       else []),
      localtime = (2024, 3, 1, 12, 0, 7),
      read_csv = (\<lambda>f. if f = Plain people_csv then Inr people_frame
                       else if f = Plain gap_csv then Inr gap_frame
                       else if f = Plain na_csv then Inr na_frame
                       else Inl ParserError),
      to_csv = (\<lambda>df. lines (csv_line (columns df) # map (\<lambda>r. csv_line (map render r)) (rows df)))\<rparr>"

definition hidden_book_archive :: "entry list" where
  "hidden_book_archive =
     [(demo_info ''[Content_Types].xml'', ''<Types/>''),
      (demo_info ''xl/workbook.xml'', hidden_book_xml),
      (demo_info ''xl/vbaProject.bin'', ''VBA''),
      (demo_info ''xl/worksheets/sheet1.xml'', ''<worksheet/>'')]"

definition plain_book_archive :: "entry list" where
  "plain_book_archive =
     [(demo_info ''[Content_Types].xml'', ''<Types/>''),
      (demo_info ''xl/workbook.xml'', plain_book_xml),
      (demo_info ''xl/vbaProject.bin'', ''VBA'')]"

definition broken_book_archive :: "entry list" where
  "broken_book_archive =
     [(demo_info ''xl/workbook.xml'', broken_xml),
      (demo_info ''xl/vbaProject.bin'', ''VBA''),
      (demo_info ''xl/worksheets/sheet1.xml'', ''<worksheet/>'')]"

definition bare_book_archive :: "entry list" where
  "bare_book_archive =
     [(bare_info ''[Content_Types].xml'', ''<Types/>''),
      (bare_info ''xl/workbook.xml'', plain_book_xml)]"

text \<open>An archive whose second member is compressed with method 9 (Deflate64).\<close>

definition deflate64_archive :: "entry list" where
  "deflate64_archive =
     [(demo_info ''[Content_Types].xml'', ''<Types/>''),
      ((demo_info ''xl/worksheets/sheet1.xml'')\<lparr>compress_type := 9\<rparr>, ''<worksheet/>''),
      (demo_info ''xl/workbook.xml'', plain_book_xml)]"

definition hidden_tables_archive :: "entry list" where
  "hidden_tables_archive =
     [(demo_info ''mimetype'', ''application/vnd.oasis.opendocument.spreadsheet''),
      (demo_info ''content.xml'', hidden_tables_xml),
      (demo_info ''styles.xml'', ''<styles/>'')]"

definition no_tables_archive :: "entry list" where
  "no_tables_archive =
     [(demo_info ''mimetype'', ''application/vnd.oasis.opendocument.spreadsheet''),
      (demo_info ''content.xml'', no_tables_xml),
      (demo_info ''styles.xml'', ''<styles/>'')]"

definition broken_tables_archive :: "entry list" where
  "broken_tables_archive =
     [(demo_info ''mimetype'', ''application/vnd.oasis.opendocument.spreadsheet''),
      (demo_info ''content.xml'', broken_xml)]"

definition demo_fs :: filesystem where
  "demo_fs =
     [''hidden.xlsx'' \<mapsto> ZipArchive hidden_book_archive,
      ''plain.xlsx'' \<mapsto> ZipArchive plain_book_archive,
      ''broken.xlsx'' \<mapsto> ZipArchive broken_book_archive,
      ''bare.xlsx'' \<mapsto> ZipArchive bare_book_archive,
      ''deflate64.xlsx'' \<mapsto> ZipArchive deflate64_archive,
      ''hidden.ods'' \<mapsto> ZipArchive hidden_tables_archive,
      ''empty.ods'' \<mapsto> ZipArchive no_tables_archive,
      ''broken.ods'' \<mapsto> ZipArchive broken_tables_archive,
      ''people.csv'' \<mapsto> Plain people_csv,
      ''gap.csv'' \<mapsto> Plain gap_csv,
      ''na.csv'' \<mapsto> Plain na_csv,
      ''old.xlsx'' \<mapsto> Plain ''keep me'']"

section \<open>Lemmas about the model\<close>

subsection \<open>Timestamps in the header\<close>

lemma push_bit_or_low:
  fixes a c :: nat
  assumes "c < 2 ^ n"
  shows "push_bit n a OR c = a * 2 ^ n + c"
proof -
  from assms have c: "take_bit n c = c" by (simp add: take_bit_eq_mod)
  have "push_bit n a + c = push_bit n a OR c"
  proof (rule disjunctive_add)
    fix k
    have "bit c k \<Longrightarrow> k < n" using c by (metis bit_take_bit_iff)
    then show "\<not> bit (push_bit n a) k \<or> \<not> bit c k" by (auto simp: bit_push_bit_iff)
  qed
  then show ?thesis by (simp add: push_bit_eq_mult)
qed

lemma and_15: "(x::nat) AND 15 = x mod 16"
proof -
  have "x AND mask 4 = x mod 2 ^ 4" by (simp flip: take_bit_eq_mask add: take_bit_eq_mod)
  then show ?thesis by (simp add: mask_eq_exp_minus_1)
qed

lemma and_31: "(x::nat) AND 31 = x mod 32"
proof -
  have "x AND mask 5 = x mod 2 ^ 5" by (simp flip: take_bit_eq_mask add: take_bit_eq_mod)
  then show ?thesis by (simp add: mask_eq_exp_minus_1)
qed

lemma and_63: "(x::nat) AND 63 = x mod 64"
proof -
  have "x AND mask 6 = x mod 2 ^ 6" by (simp flip: take_bit_eq_mask add: take_bit_eq_mod)
  then show ?thesis by (simp add: mask_eq_exp_minus_1)
qed

lemma date_enc:
  fixes a b c :: nat
  assumes "b < 16" "c < 32"
  shows "push_bit 9 a OR push_bit 5 b OR c = a * 512 + b * 32 + c"
proof -
  have 1: "push_bit 5 b OR c = b * 32 + c" using push_bit_or_low[of c 5 b] assms by simp
  have "b * 32 + c < 2 ^ 9" using assms by simp
  from push_bit_or_low[OF this, of a] show ?thesis by (simp add: 1 or.assoc)
qed

lemma time_enc:
  fixes a b c :: nat
  assumes "b < 64" "c < 32"
  shows "push_bit 11 a OR push_bit 5 b OR c = a * 2048 + b * 32 + c"
proof -
  have 1: "push_bit 5 b OR c = b * 32 + c" using push_bit_or_low[of c 5 b] assms by simp
  have "b * 32 + c < 2 ^ 11" using assms by simp
  from push_bit_or_low[OF this, of a] show ?thesis by (simp add: 1 or.assoc)
qed

lemma split_field:
  fixes q c n :: nat
  assumes "c < n"
  shows "(q * n + c) div n = q" and "(q * n + c) mod n = c"
  using assms by simp_all

lemma header_fields:
  fixes a b c m :: nat
  assumes "b < m" "c < 32"
  shows "(a * (m * 32) + b * 32 + c) div (m * 32) = a"
    and "(a * (m * 32) + b * 32 + c) div 32 mod m = b"
    and "(a * (m * 32) + b * 32 + c) mod 32 = c"
proof -
  have e: "a * (m * 32) + b * 32 + c = (a * m + b) * 32 + c" by (simp add: algebra_simps)
  from assms(1) have "b + 1 \<le> m" by simp
  then have "(b + 1) * 32 \<le> m * 32" by (rule mult_le_mono1)
  with assms(2) have low: "b * 32 + c < m * 32" by simp
  have e': "a * (m * 32) + b * 32 + c = a * (m * 32) + (b * 32 + c)" by simp
  show "(a * (m * 32) + b * 32 + c) div (m * 32) = a"
    unfolding e' using low by (rule split_field(1))
  have d: "(a * (m * 32) + b * 32 + c) div 32 = a * m + b"
    unfolding e using assms(2) by (rule split_field(1))
  show "(a * (m * 32) + b * 32 + c) div 32 mod m = b"
    unfolding d using assms(1) by (rule split_field(2))
  show "(a * (m * 32) + b * 32 + c) mod 32 = c"
    unfolding e using assms(2) by (rule split_field(2))
qed

lemma dos_date_zip_date:
  assumes "zip_date (year, month, day, hour, minute, sec)"
  shows "dos_date (year, month, day, hour, minute, sec) = Inr ((year - 1980) * 512 + month * 32 + day)"
proof -
  from assms have b: "1980 \<le> year" "month < 16" "day < 32" and "year \<le> 2107"
    by (simp_all add: zip_date_def)
  then have "(year - 1980) * 512 + month * 32 + day \<le> 65535" by arith
  with b show ?thesis by (simp add: dos_date_def date_enc Let_def)
qed

lemma dos_time_zip_date:
  assumes "zip_date (year, month, day, hour, minute, sec)"
  shows "dos_time (year, month, day, hour, minute, sec) = Inr (hour * 2048 + minute * 32 + sec div 2)"
proof -
  from assms have b: "sec < 64" "minute < 64" "hour < 32" by (simp_all add: zip_date_def)
  then have s: "sec div 2 < 32" by arith
  with b have "hour * 2048 + minute * 32 + sec div 2 \<le> 65535" by arith
  with b s show ?thesis by (simp add: dos_time_def time_enc Let_def)
qed

lemma decode_date_time_encoded:
  assumes "zip_date (year, month, day, hour, minute, sec)"
  shows "decode_date_time ((year - 1980) * 512 + month * 32 + day) (hour * 2048 + minute * 32 + sec div 2)
           = even_seconds (year, month, day, hour, minute, sec)"
proof -
  from assms have "sec < 64" by (simp add: zip_date_def)
  then have "sec div 2 < 32" by arith
  with assms have b: "1980 \<le> year" "month < 16" "day < 32" "hour < 32" "minute < 64" "sec div 2 < 32"
    by (simp_all add: zip_date_def)
  note d = header_fields[where m = 16 and a = "year - 1980", OF b(2,3), simplified]
  note t = header_fields[where m = 64 and a = hour, OF b(5,6), simplified]
  show ?thesis
    unfolding decode_date_time_def even_seconds_def and_15 and_31 and_63 drop_bit_eq_div
    using b(1) by (simp add: d t)
qed

lemma stored_copyable:
  assumes "check_compression (compress_type zinfo) = None" and "zip_date (date_time zinfo)"
  shows "stored zinfo = Inr (as_stored zinfo)"
proof -
  obtain year month day hour minute sec where dt: "date_time zinfo = (year, month, day, hour, minute, sec)"
    by (cases "date_time zinfo") auto
  with assms(2) have z: "zip_date (year, month, day, hour, minute, sec)" by simp
  show ?thesis
    by (simp add: stored_def assms(1) dt dos_date_zip_date[OF z] dos_time_zip_date[OF z]
          decode_date_time_encoded[OF z] as_stored_def)
qed

text \<open>A timestamp read from a header fits the header, and its seconds are even.\<close>

lemma decode_zip_date:
  assumes "d \<le> 65535" "t \<le> 65535"
  shows "zip_date (decode_date_time d t) \<and> even_seconds (decode_date_time d t) = decode_date_time d t"
proof -
  have "d div 512 \<le> 127" using assms(1) by simp
  moreover have "t div 2048 < 32" using assms(2) by simp
  ultimately show ?thesis
    by (simp add: zip_date_def even_seconds_def decode_date_time_def and_15 and_31 and_63 drop_bit_eq_div)
qed




subsection \<open>The two pruning blocks\<close>

lemma collect_sheets_eq:
  "collect_sheets sheets acc = acc @ map (\<lambda>s. get s ''sheetId'') (filter hidden_state sheets)"
  by (induction sheets arbitrary: acc) (simp_all add: hidden_state_def)

lemma remove_sheets_raises:
  "\<exists>s \<in> set sheets. get s ''sheetId'' \<in> set rm \<Longrightarrow> remove_sheets tree sheets rm = Inl AttributeError"
  by (induction sheets) (auto simp: getparent_def)

lemma remove_sheets_none:
  "\<forall>s \<in> set sheets. get s ''sheetId'' \<notin> set rm \<Longrightarrow> remove_sheets tree sheets rm = Inr tree"
  by (induction sheets) auto

lemma prune_workbook_parsed:
  assumes "fromstring lib content = Inr tree"
  shows "prune_workbook lib content =
    (if \<exists>s \<in> set (findall tree sheet_tag). hidden_state s then Inl AttributeError
     else Inr (tostring lib tree))"
proof (cases "\<exists>s \<in> set (findall tree sheet_tag). hidden_state s")
  case True
  then obtain s where s: "s \<in> set (findall tree sheet_tag)" "hidden_state s" by blast
  then have "get s ''sheetId'' \<in> set (collect_sheets (findall tree sheet_tag) [])"
    by (auto simp: collect_sheets_eq)
  with s have "remove_sheets tree (findall tree sheet_tag) (collect_sheets (findall tree sheet_tag) []) = Inl AttributeError"
    by (intro remove_sheets_raises) blast
  with True assms show ?thesis by (simp add: prune_workbook_def)
next
  case False
  then have "collect_sheets (findall tree sheet_tag) [] = []"
    by (simp add: collect_sheets_eq filter_empty_conv)
  then have "remove_sheets tree (findall tree sheet_tag) (collect_sheets (findall tree sheet_tag) []) = Inr tree"
    by (simp add: remove_sheets_none)
  with False assms show ?thesis by (simp add: prune_workbook_def)
qed

lemma prune_workbook_failed:
  "fromstring lib content = Inl e \<Longrightarrow> prune_workbook lib content = Inl e"
  by (simp add: prune_workbook_def)

lemma collect_tables_raises:
  "tables \<noteq> [] \<Longrightarrow> collect_tables tables acc = Inl TypeError"
  by (cases tables) (simp_all add: get_namespaces_def)

lemma prune_content_parsed:
  assumes "fromstring lib content = Inr tree"
  shows "prune_content lib content =
    (if findall tree table_tag = [] then Inr (tostring lib tree) else Inl TypeError)"
  using assms by (simp add: prune_content_def collect_tables_raises)

lemma prune_content_failed:
  "fromstring lib content = Inl e \<Longrightarrow> prune_content lib content = Inl e"
  by (simp add: prune_content_def)





subsection \<open>Reading members by name\<close>

lemma fold_upd_other:
  "name \<notin> k ` set zin \<Longrightarrow> fold (\<lambda>e m. m(k e \<mapsto> e)) zin m name = m name"
  by (induction zin arbitrary: m) auto

lemma fold_upd_distinct:
  "distinct (map k zin) \<Longrightarrow> e \<in> set zin \<Longrightarrow> fold (\<lambda>e m. m(k e \<mapsto> e)) zin m (k e) = Some e"
  by (induction zin arbitrary: m) (auto simp: fold_upd_other)

lemma read_distinct:
  assumes "distinct (map (\<lambda>e. filename (fst e)) zin)" and "e \<in> set zin"
    and "check_compression (compress_type (fst e)) = None"
  shows "read zin (filename (fst e)) = Inr (snd e)"
  using fold_upd_distinct[of "\<lambda>e. filename (fst e)" zin e Map.empty] assms
  by (simp add: read_def NameToInfo_def)

lemma read_member_distinct:
  assumes "input_file \<noteq> output_file" "distinct (map (\<lambda>e. filename (fst e)) zin)" "decodable zin"
  shows "\<forall>e \<in> set zin. read_member input_file output_file zin (filename (fst e)) = Inr (snd e)"
  using assms by (simp add: read_member_def read_distinct decodable_def)

lemma same_name_same_entry:
  assumes "distinct (map (\<lambda>e. filename (fst e)) zin)" "e \<in> set zin" "e' \<in> set zin"
    and "filename (fst e) = filename (fst e')"
  shows "e = e'"
proof -
  from assms(1) have "inj_on (\<lambda>e. filename (fst e)) (set zin)" by (simp add: distinct_map)
  with assms(2-4) show ?thesis by (auto dest: inj_onD)
qed

text \<open>
  \<^verbatim>\<open>zin.read(filename)\<close> finds a member by its name, not by its \<^verbatim>\<open>ZipInfo\<close>: of two members
  with one name, both reads return the later payload. The properties of copied members
  below are therefore stated for archives whose member names are unique, which is what
  the data model of the specification requires of an entry's name.
\<close>

lemma read_last_of_same_name:
  "filename a = filename b \<Longrightarrow> check_compression (compress_type b) = None \<Longrightarrow>
   read [(a, x), (b, y)] (filename a) = Inr y"
  by (simp add: read_def NameToInfo_def)

subsection \<open>The loop\<close>

lemma stored_filename: "stored zinfo = Inr zinfo' \<Longrightarrow> filename zinfo' = filename zinfo"
  by (auto simp: stored_def split: option.splits sum.splits)

lemma writestr_info_copyable:
  assumes "check_compression (compress_type zinfo) = None" and "zip_date (date_time zinfo)"
  shows "writestr_info zout zinfo data = Inr (zout @ [(as_stored zinfo, data)])"
  by (simp add: writestr_info_def stored_copyable[OF assms])

lemma writestr_workbook:
  assumes "zip_date (localtime lib)"
  shows "writestr_arcname ZIP_DEFLATED (localtime lib) zout ''xl/workbook.xml'' data =
           Inr (zout @ [(fresh_zipinfo lib ''xl/workbook.xml'', data)])"
proof -
  let ?zinfo = "\<lparr>filename = ''xl/workbook.xml'', date_time = localtime lib,
                  compress_type = ZIP_DEFLATED, comment = [], extra = [], internal_attr = 0,
                  external_attr = push_bit 16 384\<rparr>"
  from assms have year: "\<not> fst (localtime lib) < 1980"
    by (cases "localtime lib") (simp add: zip_date_def)
  have "writestr_info zout ?zinfo data = Inr (zout @ [(as_stored ?zinfo, data)])"
    by (rule writestr_info_copyable) (simp_all add: assms check_compression_def)
  moreover have "as_stored ?zinfo = fresh_zipinfo lib ''xl/workbook.xml''"
    by (simp add: as_stored_def fresh_zipinfo_def)
  ultimately show ?thesis using year by (simp add: writestr_arcname_def)
qed

lemma writestr_content:
  assumes "zip_date (localtime lib)"
  shows "writestr_arcname ZIP_DEFLATED (localtime lib) zout ''content.xml'' data =
           Inr (zout @ [(fresh_zipinfo lib ''content.xml'', data)])"
proof -
  let ?zinfo = "\<lparr>filename = ''content.xml'', date_time = localtime lib,
                  compress_type = ZIP_DEFLATED, comment = [], extra = [], internal_attr = 0,
                  external_attr = push_bit 16 384\<rparr>"
  from assms have year: "\<not> fst (localtime lib) < 1980"
    by (cases "localtime lib") (simp add: zip_date_def)
  have "writestr_info zout ?zinfo data = Inr (zout @ [(as_stored ?zinfo, data)])"
    by (rule writestr_info_copyable) (simp_all add: assms check_compression_def)
  moreover have "as_stored ?zinfo = fresh_zipinfo lib ''content.xml''"
    by (simp add: as_stored_def fresh_zipinfo_def)
  ultimately show ?thesis using year by (simp add: writestr_arcname_def)
qed

lemma xlsx_item_written:
  assumes "zip_date (localtime lib)"
    and "rd (filename item) = Inr data"
    and "check_compression (compress_type item) = None \<and> zip_date (date_time item)"
  shows "xlsx_item lib rd rm rh item zout = Inr (zout @ xlsx_written lib rm rh (item, data))"
proof (cases "rm \<and> filename item = ''xl/vbaProject.bin''")
  case True
  then show ?thesis by (simp add: xlsx_item_def xlsx_written_def)
next
  case notmacro: False
  show ?thesis
  proof (cases "rh \<and> filename item = ''xl/workbook.xml''")
    case True
    with assms(2) have rd: "rd ''xl/workbook.xml'' = Inr data" by simp
    from True notmacro rd show ?thesis
      by (cases "prune_workbook lib data")
         (simp_all add: xlsx_item_def xlsx_written_def writestr_workbook[OF assms(1)])
  next
    case notbook: False
    from assms(3) have "writestr_info zout item data = Inr (zout @ [(as_stored item, data)])"
      by (simp add: writestr_info_copyable)
    then show ?thesis
      by (simp add: notmacro notbook assms(2) xlsx_item_def xlsx_written_def)
  qed
qed

lemma ods_item_written:
  assumes "zip_date (localtime lib)"
    and "rd (filename item) = Inr data"
    and "check_compression (compress_type item) = None \<and> zip_date (date_time item)"
  shows "ods_item lib rd rh item zout = Inr (zout @ ods_written lib rh (item, data))"
proof (cases "rh \<and> filename item = ''content.xml''")
  case True
  with assms(2) have rd: "rd ''content.xml'' = Inr data" by simp
  from True rd show ?thesis
    by (cases "prune_content lib data")
       (simp_all add: ods_item_def ods_written_def writestr_content[OF assms(1)])
next
  case notcontent: False
  from assms(3) have "writestr_info zout item data = Inr (zout @ [(as_stored item, data)])"
    by (simp add: writestr_info_copyable)
  then show ?thesis
    by (simp add: notcontent assms(2) ods_item_def ods_written_def)
qed

lemma for_items_written:
  assumes "\<And>item data zout. rd (filename item) = Inr data \<Longrightarrow> ok item \<Longrightarrow>
             body item zout = Inr (zout @ written (item, data))"
    and "\<forall>e \<in> set es. rd (filename (fst e)) = Inr (snd e) \<and> ok (fst e)"
  shows "for_items body (map fst es) zout = (zout @ concat (map written es), None)"
  using assms(2)
proof (induction es arbitrary: zout)
  case Nil
  then show ?case by simp
next
  case (Cons e es)
  from Cons.prems have "rd (filename (fst e)) = Inr (snd e)" "ok (fst e)" by simp_all
  then have "body (fst e) zout = Inr (zout @ written (fst e, snd e))" by (rule assms(1))
  moreover from Cons.prems have "\<forall>e \<in> set es. rd (filename (fst e)) = Inr (snd e) \<and> ok (fst e)" by simp
  ultimately show ?case using Cons.IH[of "zout @ written e"] by simp
qed

lemma for_items_invariant:
  assumes "\<And>item z z'. body item z = Inr z' \<Longrightarrow> P z \<Longrightarrow> P z'"
  shows "P zout \<Longrightarrow> P (fst (for_items body items zout))"
proof (induction items arbitrary: zout)
  case Nil
  then show ?case by simp
next
  case (Cons item items)
  show ?case
  proof (cases "body item zout")
    case (Inl e)
    with Cons.prems show ?thesis by simp
  next
    case (Inr z')
    with assms Cons.prems have "P z'" by blast
    with Cons.IH Inr show ?thesis by simp
  qed
qed

lemma xlsx_item_no_macro:
  assumes "xlsx_item lib rd True rh item zout = Inr zout'"
    and "\<forall>e \<in> set zout. filename (fst e) \<noteq> ''xl/vbaProject.bin''"
  shows "\<forall>e \<in> set zout'. filename (fst e) \<noteq> ''xl/vbaProject.bin''"
  using assms
  by (auto simp: xlsx_item_def writestr_arcname_def writestr_info_def Let_def
           dest!: stored_filename split: if_splits sum.splits)

lemma xlsx_written_name:
  "w \<in> set (xlsx_written lib rm rh e) \<Longrightarrow> filename (fst w) = filename (fst e)"
  by (auto simp: xlsx_written_def fresh_zipinfo_def as_stored_def split: if_splits)

lemma ods_written_name:
  "w \<in> set (ods_written lib rh e) \<Longrightarrow> filename (fst w) = filename (fst e)"
  by (auto simp: ods_written_def fresh_zipinfo_def as_stored_def split: if_splits)

lemma filter_concat_key:
  assumes keys: "\<forall>x. \<forall>w \<in> set (f x). kw w = kx x"
  shows "distinct (map kx xs) \<Longrightarrow> x \<in> set xs \<Longrightarrow>
         [w \<leftarrow> concat (map f xs). kw w = kx x] = f x"
proof (induction xs)
  case Nil
  then show ?case by simp
next
  case (Cons a xs)
  have own: "[w \<leftarrow> f x. kw w = kx x] = f x"
    using keys by (simp add: filter_id_conv)
  show ?case
  proof (cases "a = x")
    case True
    with Cons.prems have "\<forall>y \<in> set xs. kx y \<noteq> kx x" by (force simp: image_iff)
    with keys have "[w \<leftarrow> concat (map f xs). kw w = kx x] = []"
      by (auto simp: filter_empty_conv)
    with True own show ?thesis by simp
  next
    case False
    with Cons.prems have e: "x \<in> set xs" and d: "distinct (map kx xs)"
      and ne: "kx a \<noteq> kx x" by (force simp: image_iff)+
    have "[w \<leftarrow> f a. kw w = kx x] = []"
      using keys ne by (auto simp: filter_empty_conv)
    with Cons.IH[OF d e] show ?thesis by simp
  qed
qed

lemma filter_xlsx_written:
  "distinct (map (\<lambda>e. filename (fst e)) zin) \<Longrightarrow> e \<in> set zin \<Longrightarrow>
   [w \<leftarrow> concat (map (xlsx_written lib rm rh) zin). filename (fst w) = filename (fst e)] =
     xlsx_written lib rm rh e"
  by (rule filter_concat_key[where kw = "\<lambda>w. filename (fst w)" and kx = "\<lambda>e. filename (fst e)"])
     (simp_all add: xlsx_written_name)

lemma filter_ods_written:
  "distinct (map (\<lambda>e. filename (fst e)) zin) \<Longrightarrow> e \<in> set zin \<Longrightarrow>
   [w \<leftarrow> concat (map (ods_written lib rh) zin). filename (fst w) = filename (fst e)] =
     ods_written lib rh e"
  by (rule filter_concat_key[where kw = "\<lambda>w. filename (fst w)" and kx = "\<lambda>e. filename (fst e)"])
     (simp_all add: ods_written_name)

lemma concat_map_same:
  assumes "\<forall>x \<in> set xs. map g (f x) = [h x]"
  shows "map g (concat (map f xs)) = map h xs"
  using assms by (induction xs) simp_all

lemma concat_map_filter:
  assumes "\<forall>x \<in> set xs. map g (f x) = (if P x then [] else [h x])"
  shows "map g (concat (map f xs)) = map h [x \<leftarrow> xs. \<not> P x]"
  using assms by (induction xs) simp_all

lemma name_payload_xlsx_written:
  "map name_payload (xlsx_written lib rm rh e) =
     (if rm \<and> filename (fst e) = ''xl/vbaProject.bin'' then []
      else if rh \<and> filename (fst e) = ''xl/workbook.xml'' then
        [(''xl/workbook.xml'', case prune_workbook lib (snd e) of Inl x \<Rightarrow> snd e | Inr c \<Rightarrow> c)]
      else [name_payload e])"
  by (simp add: xlsx_written_def name_payload_def fresh_zipinfo_def as_stored_def)

lemma name_payload_ods_written:
  "map name_payload (ods_written lib rh e) =
     (if rh \<and> filename (fst e) = ''content.xml'' then
        [(''content.xml'', case prune_content lib (snd e) of Inl x \<Rightarrow> snd e | Inr c \<Rightarrow> c)]
      else [name_payload e])"
  by (simp add: ods_written_def name_payload_def fresh_zipinfo_def as_stored_def)

subsection \<open>A whole run\<close>

text \<open>
  With the output path free (or \<^verbatim>\<open>overwrite\<close> set), an input archive with unique member
  names whose members can be decompressed and written again, an output path other than the
  input path and a clock between 1980 and 2107, the loop never raises and the run succeeds.
\<close>

lemma sanitize_xlsx_ok:
  assumes "fs output_file = None \<or> overwrite"
    and "fs input_file = Some (ZipArchive zin)"
    and "input_file \<noteq> output_file"
    and "distinct (map (\<lambda>e. filename (fst e)) zin)"
    and "decodable zin"
    and "zip_date (localtime lib)"
  shows "sanitize_xlsx lib input_file output_file rm rh overwrite fs =
           (True, fs(output_file \<mapsto> ZipArchive (concat (map (xlsx_written lib rm rh) zin))))"
proof -
  have "for_items (xlsx_item lib (read_member input_file output_file zin) rm rh) (map fst zin) []
          = ([] @ concat (map (xlsx_written lib rm rh) zin), None)"
  proof (rule for_items_written[where rd = "read_member input_file output_file zin"
        and ok = "\<lambda>item. check_compression (compress_type item) = None \<and> zip_date (date_time item)"])
    show "\<forall>e \<in> set zin. read_member input_file output_file zin (filename (fst e)) = Inr (snd e) \<and>
            (check_compression (compress_type (fst e)) = None \<and> zip_date (date_time (fst e)))"
      using read_member_distinct[OF assms(3,4,5)] assms(5) by (simp add: decodable_def)
  qed (rule xlsx_item_written[OF assms(6)])
  with assms(1,2) show ?thesis by (auto simp: sanitize_xlsx_def)
qed

lemma sanitize_ods_ok:
  assumes "fs output_file = None \<or> overwrite"
    and "fs input_file = Some (ZipArchive zin)"
    and "input_file \<noteq> output_file"
    and "distinct (map (\<lambda>e. filename (fst e)) zin)"
    and "decodable zin"
    and "zip_date (localtime lib)"
  shows "sanitize_ods lib input_file output_file rm rh overwrite fs =
           (True, fs(output_file \<mapsto> ZipArchive (concat (map (ods_written lib rh) zin))))"
proof -
  have "for_items (ods_item lib (read_member input_file output_file zin) rh) (map fst zin) []
          = ([] @ concat (map (ods_written lib rh) zin), None)"
  proof (rule for_items_written[where rd = "read_member input_file output_file zin"
        and ok = "\<lambda>item. check_compression (compress_type item) = None \<and> zip_date (date_time item)"])
    show "\<forall>e \<in> set zin. read_member input_file output_file zin (filename (fst e)) = Inr (snd e) \<and>
            (check_compression (compress_type (fst e)) = None \<and> zip_date (date_time (fst e)))"
      using read_member_distinct[OF assms(3,4,5)] assms(5) by (simp add: decodable_def)
  qed (rule ods_item_written[OF assms(6)])
  with assms(1,2) show ?thesis by (auto simp: sanitize_ods_def)
qed

text \<open>
  When the output path is the input path, opening the output truncates the input: the
  first member that is read ends the run with \<^verbatim>\<open>False\<close> and leaves an empty archive.
\<close>

lemma sanitize_xlsx_same_file:
  assumes "fs p = Some (ZipArchive ((item, data) # zin))"
    and "\<not> (remove_macros \<and> filename item = ''xl/vbaProject.bin'')"
  shows "sanitize_xlsx lib p p remove_macros remove_hidden_sheets True fs =
           (False, fs(p \<mapsto> ZipArchive []))"
  using assms by (auto simp: sanitize_xlsx_def read_member_def xlsx_item_def)

subsection \<open>The sample inputs\<close>

lemma ext_xlsx: "lower (snd (splitext ''broken.xlsx'')) = ''.xlsx''"
  by (simp add: lower_def splitext_def rfind_def Let_def)

lemma ext_ods: "lower (snd (splitext ''broken.ods'')) = ''.ods''"
  by (simp add: lower_def splitext_def rfind_def Let_def)


lemma demo_clock: "zip_date (localtime demo_lib)"
  by (simp add: demo_lib_def zip_date_def)

lemma demo_info_copyable:
  "check_compression (compress_type (demo_info name)) = None \<and> zip_date (date_time (demo_info name))"
  by (simp add: demo_info_def check_compression_def zip_date_def)

lemma bare_info_copyable:
  "check_compression (compress_type (bare_info name)) = None \<and> zip_date (date_time (bare_info name))"
  by (simp add: bare_info_def check_compression_def zip_date_def ZIP_DEFLATED_def ZIP_STORED_def)

lemma demo_archives_decodable:
  "decodable hidden_book_archive" "decodable plain_book_archive" "decodable broken_book_archive"
  "decodable bare_book_archive" "decodable hidden_tables_archive" "decodable no_tables_archive"
  "decodable broken_tables_archive"
  by (simp_all add: decodable_def hidden_book_archive_def plain_book_archive_def
        broken_book_archive_def bare_book_archive_def hidden_tables_archive_def
        no_tables_archive_def broken_tables_archive_def demo_info_copyable bare_info_copyable)

lemma demo_archives_distinct:
  "distinct (map (\<lambda>e. filename (fst e)) hidden_book_archive)"
  "distinct (map (\<lambda>e. filename (fst e)) plain_book_archive)"
  "distinct (map (\<lambda>e. filename (fst e)) broken_book_archive)"
  "distinct (map (\<lambda>e. filename (fst e)) bare_book_archive)"
  "distinct (map (\<lambda>e. filename (fst e)) hidden_tables_archive)"
  "distinct (map (\<lambda>e. filename (fst e)) no_tables_archive)"
  "distinct (map (\<lambda>e. filename (fst e)) broken_tables_archive)"
  by (simp_all add: hidden_book_archive_def plain_book_archive_def
        broken_book_archive_def bare_book_archive_def hidden_tables_archive_def
        no_tables_archive_def broken_tables_archive_def demo_info_def bare_info_def)

lemma demo_parse:
  "fromstring demo_lib hidden_book_xml = Inr hidden_book"
  "fromstring demo_lib plain_book_xml = Inr plain_book"
  "fromstring demo_lib hidden_tables_xml = Inr hidden_tables"
  "fromstring demo_lib no_tables_xml = Inr no_tables"
  "fromstring demo_lib broken_xml = Inl ParseError"
  by (simp_all add: demo_lib_def hidden_book_xml_def plain_book_xml_def hidden_tables_xml_def
        no_tables_xml_def broken_xml_def hidden_book_out_def plain_book_out_def
        hidden_tables_out_def no_tables_out_def xml_declaration_def)

lemma demo_trees_distinct:
  "hidden_book \<noteq> plain_book" "hidden_book \<noteq> hidden_tables" "hidden_book \<noteq> no_tables"
  "plain_book \<noteq> hidden_tables" "plain_book \<noteq> no_tables" "hidden_tables \<noteq> no_tables"
  by (simp_all add: hidden_book_def plain_book_def hidden_tables_def no_tables_def)

lemma demo_tostring:
  "tostring demo_lib hidden_book = hidden_book_out"
  "tostring demo_lib plain_book = plain_book_out"
  "tostring demo_lib hidden_tables = hidden_tables_out"
  "tostring demo_lib no_tables = no_tables_out"
  using demo_trees_distinct by (simp_all add: demo_lib_def)



lemma demo_info_stored:
  "filename (demo_info name) = name" "as_stored (demo_info name) = demo_info name"
  by (simp_all add: demo_info_def as_stored_def even_seconds_def)

lemma demo_fresh:
  "fresh_zipinfo demo_lib name =
     \<lparr>filename = name, date_time = (2024, 3, 1, 12, 0, 6), compress_type = 8,
      comment = [], extra = [], internal_attr = 0, external_attr = 25165824\<rparr>"
  by (simp add: fresh_zipinfo_def demo_lib_def even_seconds_def ZIP_DEFLATED_def)

lemma demo_prune:
  "prune_workbook demo_lib hidden_book_xml = Inl AttributeError"
  "prune_workbook demo_lib plain_book_xml = Inr plain_book_out"
  "prune_workbook demo_lib broken_xml = Inl ParseError"
  "prune_content demo_lib hidden_tables_xml = Inl TypeError"
  "prune_content demo_lib no_tables_xml = Inr no_tables_out"
  "prune_content demo_lib broken_xml = Inl ParseError"
proof -
  show "prune_workbook demo_lib hidden_book_xml = Inl AttributeError"
    by (simp add: prune_workbook_parsed[OF demo_parse(1)] hidden_book_def findall_def
          sheet_tag_def hidden_state_def get_def)
  from demo_tostring(2) show "prune_workbook demo_lib plain_book_xml = Inr plain_book_out"
    by (simp add: prune_workbook_parsed[OF demo_parse(2)] plain_book_def findall_def
          sheet_tag_def hidden_state_def get_def)
  show "prune_workbook demo_lib broken_xml = Inl ParseError"
    by (rule prune_workbook_failed[OF demo_parse(5)])
  show "prune_content demo_lib hidden_tables_xml = Inl TypeError"
    by (simp add: prune_content_parsed[OF demo_parse(3)] hidden_tables_def findall_def table_tag_def)
  from demo_tostring(4) show "prune_content demo_lib no_tables_xml = Inr no_tables_out"
    by (simp add: prune_content_parsed[OF demo_parse(4)] no_tables_def findall_def table_tag_def)
  show "prune_content demo_lib broken_xml = Inl ParseError"
    by (rule prune_content_failed[OF demo_parse(5)])
qed

text \<open>The model computes: a run on the sample workbook.\<close>

lemma sample_run_hidden_workbook:
  "sanitize_xlsx demo_lib ''hidden.xlsx'' ''out.xlsx'' True True False demo_fs =
     (True, demo_fs(''out.xlsx'' \<mapsto> ZipArchive
        [(demo_info ''[Content_Types].xml'', ''<Types/>''),
         (\<lparr>filename = ''xl/workbook.xml'', date_time = (2024, 3, 1, 12, 0, 6),
           compress_type = 8, comment = [], extra = [], internal_attr = 0,
           external_attr = 25165824\<rparr>, hidden_book_xml),
         (demo_info ''xl/worksheets/sheet1.xml'', ''<worksheet/>'')]))"
proof -
  have "concat (map (xlsx_written demo_lib True True) hidden_book_archive) =
        [(demo_info ''[Content_Types].xml'', ''<Types/>''),
         (\<lparr>filename = ''xl/workbook.xml'', date_time = (2024, 3, 1, 12, 0, 6),
           compress_type = 8, comment = [], extra = [], internal_attr = 0,
           external_attr = 25165824\<rparr>, hidden_book_xml),
         (demo_info ''xl/worksheets/sheet1.xml'', ''<worksheet/>'')]"
    by (simp add: hidden_book_archive_def xlsx_written_def demo_info_stored demo_fresh demo_prune)
  then show ?thesis
    using sanitize_xlsx_ok[where fs = demo_fs and output_file = "''out.xlsx''"
        and input_file = "''hidden.xlsx''" and zin = hidden_book_archive and lib = demo_lib
        and overwrite = False and rm = True and rh = True]
    by (simp add: demo_archives_decodable demo_archives_distinct demo_clock demo_fs_def)
qed

text \<open>
  A member compressed with a method that \<^verbatim>\<open>zipfile\<close> does not implement ends the run:
  the read raises, the flag is \<^verbatim>\<open>False\<close>, and the output holds the members written before.
\<close>

lemma sample_run_unsupported_method:
  "sanitize_xlsx demo_lib ''deflate64.xlsx'' ''out.xlsx'' False False False demo_fs =
     (False, demo_fs(''out.xlsx'' \<mapsto> ZipArchive [(demo_info ''[Content_Types].xml'', ''<Types/>'')]))"
proof -
  let ?rd = "read_member ''deflate64.xlsx'' ''out.xlsx'' deflate64_archive"
  have w: "writestr_info [] (demo_info ''[Content_Types].xml'') ''<Types/>'' =
        Inr [(demo_info ''[Content_Types].xml'', ''<Types/>'')]"
    using writestr_info_copyable[of "demo_info ''[Content_Types].xml''" "[]" "''<Types/>''"]
    by (simp add: demo_info_copyable demo_info_stored)
  have r1: "?rd ''[Content_Types].xml'' = Inr ''<Types/>''"
    by (simp add: read_member_def read_def NameToInfo_def deflate64_archive_def demo_info_def
          check_compression_def)
  have r2: "?rd ''xl/worksheets/sheet1.xml'' = Inl NotImplementedError"
    by (simp add: read_member_def read_def NameToInfo_def deflate64_archive_def demo_info_def
          check_compression_def ZIP_STORED_def ZIP_DEFLATED_def ZIP_BZIP2_def ZIP_LZMA_def)
  have items: "map fst deflate64_archive =
      [demo_info ''[Content_Types].xml'', (demo_info ''xl/worksheets/sheet1.xml'')\<lparr>compress_type := 9\<rparr>,
       demo_info ''xl/workbook.xml'']"
    by (simp add: deflate64_archive_def)
  have "for_items (xlsx_item demo_lib ?rd False False) (map fst deflate64_archive) [] =
          ([(demo_info ''[Content_Types].xml'', ''<Types/>'')], Some NotImplementedError)"
    unfolding items by (simp add: xlsx_item_def r1 r2 w demo_info_stored)
  moreover have "demo_fs ''deflate64.xlsx'' = Some (ZipArchive deflate64_archive)"
    "demo_fs ''out.xlsx'' = None"
    by (simp_all add: demo_fs_def)
  ultimately show ?thesis by (simp add: sanitize_xlsx_def)
qed

subsection \<open>A second run on the output of a first\<close>














section \<open>The claims\<close>

text \<open>
  Claim C1 says that for a family-A (.xlsx) input with exactly one sheet element of
  \<^verbatim>\<open>state="hidden"\<close> in \<^verbatim>\<open>xl/workbook.xml\<close>, a run with remove-hidden-sheets produces a
  workbook descriptor without that sheet element and with every other one.

  The code does not do this. Whenever the descriptor parses and holds a sheet whose state
  is hidden, the second loop reaches \<^verbatim>\<open>sheet.getparent()\<close>, which raises; the handler
  writes the original bytes. The theorem states what the code does on an archive that can
  be copied (unique member names, every member decodable, a clock between 1980 and 2107,
  without which the run fails before or after the descriptor): the run succeeds and the
  payload of \<^verbatim>\<open>xl/workbook.xml\<close> in the output is the input's payload, hidden sheet included.
\<close>

theorem hidden_sheet_survives_xlsx:
  assumes "fs output_file = None \<or> overwrite"
    and "fs input_file = Some (ZipArchive zin)"
    and "input_file \<noteq> output_file"
    and "distinct (map (\<lambda>e. filename (fst e)) zin)"
    and "(item, content) \<in> set zin"
    and "filename item = ''xl/workbook.xml''"
    and "fromstring lib content = Inr tree"
    and "sheet \<in> set (findall tree sheet_tag)"
    and "get sheet ''state'' = Some ''hidden''"
    and "decodable zin"
    and "zip_date (localtime lib)"
  shows "\<exists>zout. sanitize_xlsx lib input_file output_file remove_macros True overwrite fs =
                  (True, fs(output_file \<mapsto> ZipArchive zout)) \<and>
                map snd [e \<leftarrow> zout. filename (fst e) = ''xl/workbook.xml''] = [content]"
proof -
  let ?zout = "concat (map (xlsx_written lib remove_macros True) zin)"
  from assms(8,9) have "\<exists>s \<in> set (findall tree sheet_tag). hidden_state s"
    by (auto simp: hidden_state_def)
  with assms(7) have raised: "prune_workbook lib content = Inl AttributeError"
    by (simp add: prune_workbook_parsed)
  have "[e \<leftarrow> ?zout. filename (fst e) = filename (fst (item, content))] =
          xlsx_written lib remove_macros True (item, content)"
    using assms(4,5) by (rule filter_xlsx_written)
  with assms(6) raised
  have payload: "map snd [e \<leftarrow> ?zout. filename (fst e) = ''xl/workbook.xml''] = [content]"
    by (simp add: xlsx_written_def)
  show ?thesis
  proof (intro exI conjI)
    show "sanitize_xlsx lib input_file output_file remove_macros True overwrite fs =
            (True, fs(output_file \<mapsto> ZipArchive ?zout))"
      by (rule sanitize_xlsx_ok[OF assms(1-4,10,11)])
    show "map snd [e \<leftarrow> ?zout. filename (fst e) = ''xl/workbook.xml''] = [content]"
      by (rule payload)
  qed
qed

theorem hidden_sheet_survives_xlsx_witness:
  "(\<exists>zout. sanitize_xlsx demo_lib ''hidden.xlsx'' ''out.xlsx'' True True False demo_fs =
             (True, demo_fs(''out.xlsx'' \<mapsto> ZipArchive zout)) \<and>
           map snd [e \<leftarrow> zout. filename (fst e) = ''xl/workbook.xml''] = [hidden_book_xml]) \<and>
   fromstring demo_lib hidden_book_xml = Inr hidden_book \<and>
   map (\<lambda>s. (get s ''name'', get s ''state'')) (findall hidden_book sheet_tag) =
     [(Some ''Sheet1'', None), (Some ''Secret'', Some ''hidden'')]"
proof -
  have sheets: "map (\<lambda>s. (get s ''name'', get s ''state'')) (findall hidden_book sheet_tag) =
     [(Some ''Sheet1'', None), (Some ''Secret'', Some ''hidden'')]"
    by (simp add: hidden_book_def findall_def get_def sheet_tag_def)
  have "\<exists>zout. sanitize_xlsx demo_lib ''hidden.xlsx'' ''out.xlsx'' True True False demo_fs =
             (True, demo_fs(''out.xlsx'' \<mapsto> ZipArchive zout)) \<and>
           map snd [e \<leftarrow> zout. filename (fst e) = ''xl/workbook.xml''] = [hidden_book_xml]"
  proof (rule hidden_sheet_survives_xlsx[where zin = hidden_book_archive
        and item = "demo_info ''xl/workbook.xml''" and tree = hidden_book
        and sheet = "Element sheet_tag [(''name'', ''Secret''), (''sheetId'', ''2''), (''state'', ''hidden'')]
             None None []"])
    show "fromstring demo_lib hidden_book_xml = Inr hidden_book" by (rule demo_parse(1))
    show "decodable hidden_book_archive" by (rule demo_archives_decodable(1))
    show "zip_date (localtime demo_lib)" by (rule demo_clock)
    show "distinct (map (\<lambda>e. filename (fst e)) hidden_book_archive)"
      by (rule demo_archives_distinct(1))
  qed (simp_all add: demo_fs_def hidden_book_archive_def demo_info_def hidden_book_def
        findall_def get_def sheet_tag_def)
  with demo_parse(1) sheets show ?thesis by blast
qed

text \<open>
  Claim C2: for every entry of the input container whose name is not the active trigger
  name (\<^verbatim>\<open>xl/vbaProject.bin\<close> or \<^verbatim>\<open>xl/workbook.xml\<close> for family A, \<^verbatim>\<open>content.xml\<close> for family B),
  the bytes of that entry in the output container equal its bytes in the input container,
  for every combination of the options.

  For an input archive with unique member names whose members can all be decoded, an
  output path that is free or may be overwritten and is not the input path, and a clock
  between 1980 and 2107: the run succeeds, and the output has exactly one member of the
  entry's name, whose payload is the entry's payload. An entry is exempt only where its
  name is a trigger name and the option that goes with it is set.
\<close>

theorem untargeted_entries_unchanged:
  assumes "fs output_file = None \<or> overwrite"
    and "fs input_file = Some (ZipArchive zin)"
    and "input_file \<noteq> output_file"
    and "distinct (map (\<lambda>e. filename (fst e)) zin)"
    and "decodable zin"
    and "zip_date (localtime lib)"
    and "(item, data) \<in> set zin"
  shows "(\<not> (remove_macros \<and> filename item = ''xl/vbaProject.bin'') \<and>
          \<not> (remove_hidden_sheets \<and> filename item = ''xl/workbook.xml'') \<longrightarrow>
           (\<exists>zout. sanitize_xlsx lib input_file output_file remove_macros remove_hidden_sheets overwrite fs =
                     (True, fs(output_file \<mapsto> ZipArchive zout)) \<and>
                   map snd [e \<leftarrow> zout. filename (fst e) = filename item] = [data])) \<and>
         (\<not> (remove_hidden_sheets \<and> filename item = ''content.xml'') \<longrightarrow>
           (\<exists>zout. sanitize_ods lib input_file output_file remove_macros remove_hidden_sheets overwrite fs =
                     (True, fs(output_file \<mapsto> ZipArchive zout)) \<and>
                   map snd [e \<leftarrow> zout. filename (fst e) = filename item] = [data]))"
proof (intro conjI impI)
  assume n: "\<not> (remove_macros \<and> filename item = ''xl/vbaProject.bin'') \<and>
          \<not> (remove_hidden_sheets \<and> filename item = ''xl/workbook.xml'')"
  let ?zout = "concat (map (xlsx_written lib remove_macros remove_hidden_sheets) zin)"
  have "[e \<leftarrow> ?zout. filename (fst e) = filename (fst (item, data))] =
          xlsx_written lib remove_macros remove_hidden_sheets (item, data)"
    using assms(4,7) by (rule filter_xlsx_written)
  with n have payload: "map snd [e \<leftarrow> ?zout. filename (fst e) = filename item] = [data]"
    by (auto simp: xlsx_written_def)
  show "\<exists>zout. sanitize_xlsx lib input_file output_file remove_macros remove_hidden_sheets overwrite fs =
                     (True, fs(output_file \<mapsto> ZipArchive zout)) \<and>
                   map snd [e \<leftarrow> zout. filename (fst e) = filename item] = [data]"
  proof (intro exI conjI)
    show "sanitize_xlsx lib input_file output_file remove_macros remove_hidden_sheets overwrite fs =
            (True, fs(output_file \<mapsto> ZipArchive ?zout))"
      by (rule sanitize_xlsx_ok[OF assms(1-6)])
  qed (rule payload)
next
  assume n: "\<not> (remove_hidden_sheets \<and> filename item = ''content.xml'')"
  let ?zout = "concat (map (ods_written lib remove_hidden_sheets) zin)"
  have "[e \<leftarrow> ?zout. filename (fst e) = filename (fst (item, data))] =
          ods_written lib remove_hidden_sheets (item, data)"
    using assms(4,7) by (rule filter_ods_written)
  with n have payload: "map snd [e \<leftarrow> ?zout. filename (fst e) = filename item] = [data]"
    by (auto simp: ods_written_def)
  show "\<exists>zout. sanitize_ods lib input_file output_file remove_macros remove_hidden_sheets overwrite fs =
                     (True, fs(output_file \<mapsto> ZipArchive zout)) \<and>
                   map snd [e \<leftarrow> zout. filename (fst e) = filename item] = [data]"
  proof (intro exI conjI)
    show "sanitize_ods lib input_file output_file remove_macros remove_hidden_sheets overwrite fs =
            (True, fs(output_file \<mapsto> ZipArchive ?zout))"
      by (rule sanitize_ods_ok[OF assms(1-6)])
  qed (rule payload)
qed

theorem untargeted_entries_unchanged_witness:
  "(\<exists>zout. sanitize_xlsx demo_lib ''hidden.xlsx'' ''out.xlsx'' True True False demo_fs =
             (True, demo_fs(''out.xlsx'' \<mapsto> ZipArchive zout)) \<and>
           map snd [e \<leftarrow> zout. filename (fst e) = ''xl/worksheets/sheet1.xml''] = [''<worksheet/>'']) \<and>
   (\<exists>zout. sanitize_ods demo_lib ''hidden.xlsx'' ''out.xlsx'' True True False demo_fs =
             (True, demo_fs(''out.xlsx'' \<mapsto> ZipArchive zout)) \<and>
           map snd [e \<leftarrow> zout. filename (fst e) = ''xl/worksheets/sheet1.xml''] = [''<worksheet/>''])"
  using untargeted_entries_unchanged[where fs = demo_fs and output_file = "''out.xlsx''"
      and overwrite = False and input_file = "''hidden.xlsx''" and zin = hidden_book_archive
      and item = "demo_info ''xl/worksheets/sheet1.xml''" and data = "''<worksheet/>''"
      and lib = demo_lib and remove_macros = True and remove_hidden_sheets = True,
      OF _ _ _ demo_archives_distinct(1) demo_archives_decodable(1) demo_clock]
  by (simp add: demo_fs_def hidden_book_archive_def demo_info_def)

text \<open>
  Claim C3: with \<^verbatim>\<open>remove_macros\<close> and \<^verbatim>\<open>remove_hidden_sheets\<close> both disabled, the output
  container has the entry names, the entry order and the payload bytes of the input.

  Under the same conditions as for C2, both container pipelines succeed and write an
  archive whose list of member names and payloads is that of the input archive.
\<close>

theorem roundtrip_all_options_disabled:
  assumes "fs output_file = None \<or> overwrite"
    and "fs input_file = Some (ZipArchive zin)"
    and "input_file \<noteq> output_file"
    and "distinct (map (\<lambda>e. filename (fst e)) zin)"
    and "decodable zin"
    and "zip_date (localtime lib)"
  shows "(\<exists>zout. sanitize_xlsx lib input_file output_file False False overwrite fs =
                   (True, fs(output_file \<mapsto> ZipArchive zout)) \<and>
                 map name_payload zout = map name_payload zin) \<and>
         (\<exists>zout. sanitize_ods lib input_file output_file False False overwrite fs =
                   (True, fs(output_file \<mapsto> ZipArchive zout)) \<and>
                 map name_payload zout = map name_payload zin)"
proof (intro conjI exI)
  show "sanitize_xlsx lib input_file output_file False False overwrite fs =
          (True, fs(output_file \<mapsto> ZipArchive (concat (map (xlsx_written lib False False) zin))))"
    by (rule sanitize_xlsx_ok[OF assms])
  show "map name_payload (concat (map (xlsx_written lib False False) zin)) = map name_payload zin"
    by (rule concat_map_same) (simp add: name_payload_xlsx_written)
  show "sanitize_ods lib input_file output_file False False overwrite fs =
          (True, fs(output_file \<mapsto> ZipArchive (concat (map (ods_written lib False) zin))))"
    by (rule sanitize_ods_ok[OF assms])
  show "map name_payload (concat (map (ods_written lib False) zin)) = map name_payload zin"
    by (rule concat_map_same) (simp add: name_payload_ods_written)
qed

theorem roundtrip_all_options_disabled_witness:
  "(\<exists>zout. sanitize_xlsx demo_lib ''bare.xlsx'' ''out.xlsx'' False False False demo_fs =
             (True, demo_fs(''out.xlsx'' \<mapsto> ZipArchive zout)) \<and>
           map name_payload zout =
             [(''[Content_Types].xml'', ''<Types/>''), (''xl/workbook.xml'', plain_book_xml)]) \<and>
   (\<exists>zout. sanitize_ods demo_lib ''bare.xlsx'' ''out.xlsx'' False False False demo_fs =
             (True, demo_fs(''out.xlsx'' \<mapsto> ZipArchive zout)) \<and>
           map name_payload zout =
             [(''[Content_Types].xml'', ''<Types/>''), (''xl/workbook.xml'', plain_book_xml)])"
  using roundtrip_all_options_disabled[where fs = demo_fs and output_file = "''out.xlsx''"
      and overwrite = False and input_file = "''bare.xlsx''" and zin = bare_book_archive
      and lib = demo_lib,
      OF _ _ _ demo_archives_distinct(4) demo_archives_decodable(4) demo_clock]
  by (simp add: demo_fs_def bare_book_archive_def bare_info_def name_payload_def)

text \<open>
  Claim C4: for every family-A input processed with \<^verbatim>\<open>remove_macros\<close> set, no entry named
  \<^verbatim>\<open>xl/vbaProject.bin\<close> exists in the output container.

  Every successful run of \<^verbatim>\<open>sanitize_xlsx\<close> with \<^verbatim>\<open>remove_macros\<close> leaves at the output
  path an archive none of whose members has that name. No condition on the input archive
  is needed; a successful run exists by the witness.
\<close>

theorem macro_entry_dropped:
  assumes "sanitize_xlsx lib input_file output_file True remove_hidden_sheets overwrite fs = (True, fs')"
  shows "\<exists>zout. fs' output_file = Some (ZipArchive zout) \<and>
           (\<forall>e \<in> set zout. filename (fst e) \<noteq> ''xl/vbaProject.bin'')"
proof -
  from assms obtain zin where zin: "fs input_file = Some (ZipArchive zin)"
    by (auto simp: sanitize_xlsx_def split: if_splits option.splits disk_file.splits)
  let ?loop = "for_items (xlsx_item lib (read_member input_file output_file zin) True remove_hidden_sheets)
                 (map fst zin) []"
  from assms zin have fs': "fs' = fs(output_file \<mapsto> ZipArchive (fst ?loop))"
    by (auto simp: sanitize_xlsx_def split: if_splits prod.splits option.splits)
  have "\<forall>e \<in> set (fst ?loop). filename (fst e) \<noteq> ''xl/vbaProject.bin''"
    by (rule for_items_invariant[where P = "\<lambda>z. \<forall>e \<in> set z. filename (fst e) \<noteq> ''xl/vbaProject.bin''"])
       (erule xlsx_item_no_macro, simp_all)
  with fs' show ?thesis by simp
qed

theorem macro_entry_dropped_witness:
  "\<exists>zout. snd (sanitize_xlsx demo_lib ''hidden.xlsx'' ''out.xlsx'' True False False demo_fs) ''out.xlsx'' =
            Some (ZipArchive zout) \<and>
          (\<forall>e \<in> set zout. filename (fst e) \<noteq> ''xl/vbaProject.bin'')"
proof -
  have run: "sanitize_xlsx demo_lib ''hidden.xlsx'' ''out.xlsx'' True False False demo_fs =
          (True, snd (sanitize_xlsx demo_lib ''hidden.xlsx'' ''out.xlsx'' True False False demo_fs))"
    using sanitize_xlsx_ok[where fs = demo_fs and output_file = "''out.xlsx''"
        and input_file = "''hidden.xlsx''" and zin = hidden_book_archive and lib = demo_lib
        and overwrite = False and rm = True and rh = False,
        OF _ _ _ demo_archives_distinct(1) demo_archives_decodable(1) demo_clock]
    by (simp add: demo_fs_def)
  from macro_entry_dropped[OF run] show ?thesis .
qed

text \<open>
  Claim C5: when the descriptor entry fails to parse as XML while
  \<^verbatim>\<open>remove_hidden_sheets\<close> is set, its original bytes are written to the output, the
  remaining entries are still processed, and the run reports success (exit status 0).

  For \<^verbatim>\<open>main\<close> on an \<^verbatim>\<open>.xlsx\<close> and on an \<^verbatim>\<open>.ods\<close> input whose descriptor \<^verbatim>\<open>ET.fromstring\<close>
  refuses, under the conditions of C2 (a readable archive with unique member names): the
  exit status is 0, the output has exactly one member of the descriptor's name, with the
  input's payload, and the names and payloads of the output are those of the input, in
  order, the macro member left out when \<^verbatim>\<open>remove_macros\<close> is set (family A).
\<close>

theorem malformed_descriptor_copied_verbatim:
  assumes "fs output_file = None \<or> overwrite"
    and "fs input_file = Some (ZipArchive zin)"
    and "input_file \<noteq> output_file"
    and "distinct (map (\<lambda>e. filename (fst e)) zin)"
    and "decodable zin"
    and "zip_date (localtime lib)"
    and "(item, content) \<in> set zin"
    and "fromstring lib content = Inl err"
  shows "(lower (snd (splitext input_file)) = ''.xlsx'' \<and> filename item = ''xl/workbook.xml'' \<longrightarrow>
           (\<exists>zout. main lib input_file output_file remove_macros True overwrite fs =
                     (0, fs(output_file \<mapsto> ZipArchive zout)) \<and>
                   map snd [e \<leftarrow> zout. filename (fst e) = ''xl/workbook.xml''] = [content] \<and>
                   map name_payload zout =
                     map name_payload
                       [e \<leftarrow> zin. \<not> (remove_macros \<and> filename (fst e) = ''xl/vbaProject.bin'')])) \<and>
         (lower (snd (splitext input_file)) = ''.ods'' \<and> filename item = ''content.xml'' \<longrightarrow>
           (\<exists>zout. main lib input_file output_file remove_macros True overwrite fs =
                     (0, fs(output_file \<mapsto> ZipArchive zout)) \<and>
                   map snd [e \<leftarrow> zout. filename (fst e) = ''content.xml''] = [content] \<and>
                   map name_payload zout = map name_payload zin))"
proof (intro conjI impI)
  assume a: "lower (snd (splitext input_file)) = ''.xlsx'' \<and> filename item = ''xl/workbook.xml''"
  let ?zout = "concat (map (xlsx_written lib remove_macros True) zin)"
  have failed: "prune_workbook lib content = Inl err"
    using assms(8) by (rule prune_workbook_failed)
  have "[e \<leftarrow> ?zout. filename (fst e) = filename (fst (item, content))] =
          xlsx_written lib remove_macros True (item, content)"
    using assms(4,7) by (rule filter_xlsx_written)
  with a failed
  have payload: "map snd [e \<leftarrow> ?zout. filename (fst e) = ''xl/workbook.xml''] = [content]"
    by (simp add: xlsx_written_def)
  have each: "\<forall>e \<in> set zin. map name_payload (xlsx_written lib remove_macros True e) =
        (if remove_macros \<and> filename (fst e) = ''xl/vbaProject.bin'' then [] else [name_payload e])"
  proof
    fix e assume e: "e \<in> set zin"
    show "map name_payload (xlsx_written lib remove_macros True e) =
        (if remove_macros \<and> filename (fst e) = ''xl/vbaProject.bin'' then [] else [name_payload e])"
    proof (cases "filename (fst e) = ''xl/workbook.xml''")
      case True
      with a have "filename (fst e) = filename (fst (item, content))" by simp
      then have "e = (item, content)" by (rule same_name_same_entry[OF assms(4) e assms(7)])
      with True failed show ?thesis
        by (simp add: name_payload_xlsx_written name_payload_def)
    next
      case False
      then show ?thesis by (simp add: name_payload_xlsx_written)
    qed
  qed
  have all: "map name_payload ?zout =
      map name_payload [e \<leftarrow> zin. \<not> (remove_macros \<and> filename (fst e) = ''xl/vbaProject.bin'')]"
    using each by (rule concat_map_filter)
  have "sanitize_xlsx lib input_file output_file remove_macros True overwrite fs =
          (True, fs(output_file \<mapsto> ZipArchive ?zout))"
    by (rule sanitize_xlsx_ok[OF assms(1-6)])
  with a have run: "main lib input_file output_file remove_macros True overwrite fs =
          (0, fs(output_file \<mapsto> ZipArchive ?zout))"
    by (simp add: main_def)
  show "\<exists>zout. main lib input_file output_file remove_macros True overwrite fs =
                     (0, fs(output_file \<mapsto> ZipArchive zout)) \<and>
                   map snd [e \<leftarrow> zout. filename (fst e) = ''xl/workbook.xml''] = [content] \<and>
                   map name_payload zout =
                     map name_payload
                       [e \<leftarrow> zin. \<not> (remove_macros \<and> filename (fst e) = ''xl/vbaProject.bin'')]"
    by (intro exI[of _ ?zout] conjI) (rule run payload all)+
next
  assume a: "lower (snd (splitext input_file)) = ''.ods'' \<and> filename item = ''content.xml''"
  let ?zout = "concat (map (ods_written lib True) zin)"
  have failed: "prune_content lib content = Inl err"
    using assms(8) by (rule prune_content_failed)
  have "[e \<leftarrow> ?zout. filename (fst e) = filename (fst (item, content))] =
          ods_written lib True (item, content)"
    using assms(4,7) by (rule filter_ods_written)
  with a failed
  have payload: "map snd [e \<leftarrow> ?zout. filename (fst e) = ''content.xml''] = [content]"
    by (simp add: ods_written_def)
  have each: "\<forall>e \<in> set zin. map name_payload (ods_written lib True e) = [name_payload e]"
  proof
    fix e assume e: "e \<in> set zin"
    show "map name_payload (ods_written lib True e) = [name_payload e]"
    proof (cases "filename (fst e) = ''content.xml''")
      case True
      with a have "filename (fst e) = filename (fst (item, content))" by simp
      then have "e = (item, content)" by (rule same_name_same_entry[OF assms(4) e assms(7)])
      with True failed show ?thesis
        by (simp add: name_payload_ods_written name_payload_def)
    next
      case False
      then show ?thesis by (simp add: name_payload_ods_written)
    qed
  qed
  have all: "map name_payload ?zout = map name_payload zin"
    using each by (rule concat_map_same)
  have "sanitize_ods lib input_file output_file remove_macros True overwrite fs =
          (True, fs(output_file \<mapsto> ZipArchive ?zout))"
    by (rule sanitize_ods_ok[OF assms(1-6)])
  with a have run: "main lib input_file output_file remove_macros True overwrite fs =
          (0, fs(output_file \<mapsto> ZipArchive ?zout))"
    by (simp add: main_def)
  show "\<exists>zout. main lib input_file output_file remove_macros True overwrite fs =
                     (0, fs(output_file \<mapsto> ZipArchive zout)) \<and>
                   map snd [e \<leftarrow> zout. filename (fst e) = ''content.xml''] = [content] \<and>
                   map name_payload zout = map name_payload zin"
    by (intro exI[of _ ?zout] conjI) (rule run payload all)+
qed

theorem malformed_descriptor_copied_verbatim_witness:
  "(\<exists>zout. main demo_lib ''broken.xlsx'' ''out.xlsx'' True True False demo_fs =
             (0, demo_fs(''out.xlsx'' \<mapsto> ZipArchive zout)) \<and>
           map snd [e \<leftarrow> zout. filename (fst e) = ''xl/workbook.xml''] = [broken_xml] \<and>
           map name_payload zout =
             [(''xl/workbook.xml'', broken_xml), (''xl/worksheets/sheet1.xml'', ''<worksheet/>'')]) \<and>
   (\<exists>zout. main demo_lib ''broken.ods'' ''out.ods'' True True False demo_fs =
             (0, demo_fs(''out.ods'' \<mapsto> ZipArchive zout)) \<and>
           map snd [e \<leftarrow> zout. filename (fst e) = ''content.xml''] = [broken_xml] \<and>
           map name_payload zout =
             [(''mimetype'', ''application/vnd.oasis.opendocument.spreadsheet''),
              (''content.xml'', broken_xml)])"
  using malformed_descriptor_copied_verbatim[where fs = demo_fs and output_file = "''out.xlsx''"
      and overwrite = False and input_file = "''broken.xlsx''" and zin = broken_book_archive
      and item = "demo_info ''xl/workbook.xml''" and content = broken_xml
      and lib = demo_lib and err = ParseError and remove_macros = True,
      OF _ _ _ demo_archives_distinct(3) demo_archives_decodable(3) demo_clock _ demo_parse(5)]
    malformed_descriptor_copied_verbatim[where fs = demo_fs and output_file = "''out.ods''"
      and overwrite = False and input_file = "''broken.ods''" and zin = broken_tables_archive
      and item = "demo_info ''content.xml''" and content = broken_xml
      and lib = demo_lib and err = ParseError and remove_macros = True,
      OF _ _ _ demo_archives_distinct(7) demo_archives_decodable(7) demo_clock _ demo_parse(5)]
  by (simp add: ext_xlsx ext_ods demo_fs_def broken_book_archive_def broken_tables_archive_def
        demo_info_def name_payload_def)

text \<open>
  Claim C6 says that for a family-B (.ods) input processed with remove-hidden-sheets, a
  table element of \<^verbatim>\<open>content.xml\<close> is removed if and only if its display attribute is the
  string false.

  The code removes no table. Whenever the document parses and has a table element at all,
  the first loop calls \<^verbatim>\<open>table.get\<close> with the keyword \<^verbatim>\<open>namespaces\<close>, which raises
  \<^verbatim>\<open>TypeError\<close>; the handler writes the original bytes. The theorem states what the code
  does on an archive that can be copied (as for C1): the pruning block raises, the run
  succeeds, and the payload of \<^verbatim>\<open>content.xml\<close> in the output is the input's payload,
  whatever the display attributes of its tables.
\<close>

theorem hidden_table_survives_ods:
  assumes "fs output_file = None \<or> overwrite"
    and "fs input_file = Some (ZipArchive zin)"
    and "input_file \<noteq> output_file"
    and "distinct (map (\<lambda>e. filename (fst e)) zin)"
    and "(item, content) \<in> set zin"
    and "filename item = ''content.xml''"
    and "fromstring lib content = Inr tree"
    and "table \<in> set (findall tree table_tag)"
    and "decodable zin"
    and "zip_date (localtime lib)"
  shows "prune_content lib content = Inl TypeError \<and>
         (\<exists>zout. sanitize_ods lib input_file output_file remove_macros True overwrite fs =
                  (True, fs(output_file \<mapsto> ZipArchive zout)) \<and>
                map snd [e \<leftarrow> zout. filename (fst e) = ''content.xml''] = [content])"
proof -
  let ?zout = "concat (map (ods_written lib True) zin)"
  from assms(8) have "findall tree table_tag \<noteq> []" by auto
  with assms(7) have raised: "prune_content lib content = Inl TypeError"
    by (simp add: prune_content_parsed)
  have "[e \<leftarrow> ?zout. filename (fst e) = filename (fst (item, content))] =
          ods_written lib True (item, content)"
    using assms(4,5) by (rule filter_ods_written)
  with assms(6) raised
  have payload: "map snd [e \<leftarrow> ?zout. filename (fst e) = ''content.xml''] = [content]"
    by (simp add: ods_written_def)
  show ?thesis
  proof (intro exI conjI)
    show "prune_content lib content = Inl TypeError" by (rule raised)
    show "sanitize_ods lib input_file output_file remove_macros True overwrite fs =
            (True, fs(output_file \<mapsto> ZipArchive ?zout))"
      by (rule sanitize_ods_ok[OF assms(1-4,9,10)])
    show "map snd [e \<leftarrow> ?zout. filename (fst e) = ''content.xml''] = [content]"
      by (rule payload)
  qed
qed

theorem hidden_table_survives_ods_witness:
  "(prune_content demo_lib hidden_tables_xml = Inl TypeError \<and>
    (\<exists>zout. sanitize_ods demo_lib ''hidden.ods'' ''out.ods'' False True False demo_fs =
             (True, demo_fs(''out.ods'' \<mapsto> ZipArchive zout)) \<and>
           map snd [e \<leftarrow> zout. filename (fst e) = ''content.xml''] = [hidden_tables_xml])) \<and>
   fromstring demo_lib hidden_tables_xml = Inr hidden_tables \<and>
   map (\<lambda>t. (get t (table_ns @ ''name''), get t (table_ns @ ''display'')))
       (findall hidden_tables table_tag) =
     [(Some ''Data'', None), (Some ''Secret'', Some ''false'')]"
proof -
  have tables: "map (\<lambda>t. (get t (table_ns @ ''name''), get t (table_ns @ ''display'')))
       (findall hidden_tables table_tag) =
     [(Some ''Data'', None), (Some ''Secret'', Some ''false'')]"
    by (simp add: hidden_tables_def findall_def get_def table_tag_def table_ns_def)
  have "prune_content demo_lib hidden_tables_xml = Inl TypeError \<and>
    (\<exists>zout. sanitize_ods demo_lib ''hidden.ods'' ''out.ods'' False True False demo_fs =
             (True, demo_fs(''out.ods'' \<mapsto> ZipArchive zout)) \<and>
           map snd [e \<leftarrow> zout. filename (fst e) = ''content.xml''] = [hidden_tables_xml])"
  proof (rule hidden_table_survives_ods[where zin = hidden_tables_archive
        and item = "demo_info ''content.xml''" and tree = hidden_tables
        and table = "Element table_tag [(table_ns @ ''name'', ''Data'')] None None []"])
    show "fromstring demo_lib hidden_tables_xml = Inr hidden_tables" by (rule demo_parse(3))
    show "decodable hidden_tables_archive" by (rule demo_archives_decodable(5))
    show "zip_date (localtime demo_lib)" by (rule demo_clock)
    show "distinct (map (\<lambda>e. filename (fst e)) hidden_tables_archive)"
      by (rule demo_archives_distinct(5))
  qed (simp_all add: demo_fs_def hidden_tables_archive_def demo_info_def hidden_tables_def
        findall_def table_tag_def)
  with demo_parse(3) tables show ?thesis by blast
qed

text \<open>
  Claim C7: when the output path exists and the overwrite option is not set, the run
  fails with exit status 1 and the existing output file is left as it was.

  \<^verbatim>\<open>main\<close> returns status 1 and the file system it was given, for every input path (of any
  extension) and every setting of the other options.
\<close>

theorem existing_output_not_overwritten:
  assumes "fs output_file \<noteq> None"
  shows "main lib input_file output_file remove_macros remove_hidden_sheets False fs = (1, fs)"
  using assms by (simp add: main_def Let_def sanitize_xlsx_def sanitize_ods_def sanitize_csv_def)

theorem existing_output_not_overwritten_witness:
  "main demo_lib ''hidden.xlsx'' ''old.xlsx'' True True False demo_fs = (1, demo_fs)"
  by (rule existing_output_not_overwritten) (simp add: demo_fs_def)






text \<open>
  Claim C10 says that a rewritten descriptor entry is written under its name alone, with
  new default metadata (default timestamp and attributes, the archive's deflate
  compression), while copied entries keep the \<^verbatim>\<open>ZipInfo\<close> of the source.

  What holds, for an archive that can be copied (as for C2) and a run with
  \<^verbatim>\<open>remove_hidden_sheets\<close>: the output's descriptor member carries the \<^verbatim>\<open>ZipInfo\<close> displayed
  in the theorem, in which nothing comes from the input member's \<^verbatim>\<open>ZipInfo\<close>: the name, the
  clock's reading with the seconds rounded down to an even number, deflate compression, no
  comment, no extra field, and the permissions \<^verbatim>\<open>0o600 << 16\<close>. Its payload is what the
  pruning block returned, or the original payload when that block raised. Every member
  that is copied is in the output with the \<^verbatim>\<open>ZipInfo\<close> it had, but for two fields: the
  seconds of the timestamp are rounded down to an even number (which changes nothing in a
  timestamp read from an archive, lemma \<open>decode_zip_date\<close>), and an \<^verbatim>\<open>external_attr\<close> of 0 has
  become \<^verbatim>\<open>0o600 << 16\<close>.
\<close>

theorem rewritten_descriptor_fresh_metadata:
  assumes "fs output_file = None \<or> overwrite"
    and "fs input_file = Some (ZipArchive zin)"
    and "input_file \<noteq> output_file"
    and "distinct (map (\<lambda>e. filename (fst e)) zin)"
    and "decodable zin"
    and "zip_date (localtime lib)"
    and "(item, content) \<in> set zin"
    and "(other, data) \<in> set zin"
  shows "(filename item = ''xl/workbook.xml'' \<longrightarrow>
          (\<exists>zout. sanitize_xlsx lib input_file output_file remove_macros True overwrite fs =
                    (True, fs(output_file \<mapsto> ZipArchive zout)) \<and>
             [e \<leftarrow> zout. filename (fst e) = ''xl/workbook.xml''] =
               [(\<lparr>filename = ''xl/workbook.xml'', date_time = even_seconds (localtime lib),
                   compress_type = ZIP_DEFLATED, comment = [], extra = [],
                   internal_attr = 0, external_attr = push_bit 16 384\<rparr>,
                 case prune_workbook lib content of Inl x \<Rightarrow> content | Inr content' \<Rightarrow> content')] \<and>
             (filename other \<noteq> ''xl/workbook.xml'' \<and>
              \<not> (remove_macros \<and> filename other = ''xl/vbaProject.bin'') \<longrightarrow>
                [e \<leftarrow> zout. filename (fst e) = filename other] =
                  [(other\<lparr>date_time := even_seconds (date_time other),
                          external_attr := (if external_attr other = 0 then push_bit 16 384
                                            else external_attr other)\<rparr>, data)]))) \<and>
         (filename item = ''content.xml'' \<longrightarrow>
          (\<exists>zout. sanitize_ods lib input_file output_file remove_macros True overwrite fs =
                    (True, fs(output_file \<mapsto> ZipArchive zout)) \<and>
             [e \<leftarrow> zout. filename (fst e) = ''content.xml''] =
               [(\<lparr>filename = ''content.xml'', date_time = even_seconds (localtime lib),
                   compress_type = ZIP_DEFLATED, comment = [], extra = [],
                   internal_attr = 0, external_attr = push_bit 16 384\<rparr>,
                 case prune_content lib content of Inl x \<Rightarrow> content | Inr content' \<Rightarrow> content')] \<and>
             (filename other \<noteq> ''content.xml'' \<longrightarrow>
                [e \<leftarrow> zout. filename (fst e) = filename other] =
                  [(other\<lparr>date_time := even_seconds (date_time other),
                          external_attr := (if external_attr other = 0 then push_bit 16 384
                                            else external_attr other)\<rparr>, data)])))"
proof (intro conjI impI)
  assume a: "filename item = ''xl/workbook.xml''"
  let ?zout = "concat (map (xlsx_written lib remove_macros True) zin)"
  have "[e \<leftarrow> ?zout. filename (fst e) = filename (fst (item, content))] =
          xlsx_written lib remove_macros True (item, content)"
    using assms(4,7) by (rule filter_xlsx_written)
  with a have d: "[e \<leftarrow> ?zout. filename (fst e) = ''xl/workbook.xml''] =
               [(\<lparr>filename = ''xl/workbook.xml'', date_time = even_seconds (localtime lib),
                   compress_type = ZIP_DEFLATED, comment = [], extra = [],
                   internal_attr = 0, external_attr = push_bit 16 384\<rparr>,
                 case prune_workbook lib content of Inl x \<Rightarrow> content | Inr content' \<Rightarrow> content')]"
    by (simp add: xlsx_written_def fresh_zipinfo_def split: sum.splits)
  have "[e \<leftarrow> ?zout. filename (fst e) = filename (fst (other, data))] =
          xlsx_written lib remove_macros True (other, data)"
    using assms(4,8) by (rule filter_xlsx_written)
  then have o: "filename other \<noteq> ''xl/workbook.xml'' \<and>
              \<not> (remove_macros \<and> filename other = ''xl/vbaProject.bin'') \<longrightarrow>
                [e \<leftarrow> ?zout. filename (fst e) = filename other] =
                  [(other\<lparr>date_time := even_seconds (date_time other),
                          external_attr := (if external_attr other = 0 then push_bit 16 384
                                            else external_attr other)\<rparr>, data)]"
    by (simp add: xlsx_written_def as_stored_def)
  have run: "sanitize_xlsx lib input_file output_file remove_macros True overwrite fs =
            (True, fs(output_file \<mapsto> ZipArchive ?zout))"
    by (rule sanitize_xlsx_ok[OF assms(1-6)])
  show "\<exists>zout. sanitize_xlsx lib input_file output_file remove_macros True overwrite fs =
                    (True, fs(output_file \<mapsto> ZipArchive zout)) \<and>
             [e \<leftarrow> zout. filename (fst e) = ''xl/workbook.xml''] =
               [(\<lparr>filename = ''xl/workbook.xml'', date_time = even_seconds (localtime lib),
                   compress_type = ZIP_DEFLATED, comment = [], extra = [],
                   internal_attr = 0, external_attr = push_bit 16 384\<rparr>,
                 case prune_workbook lib content of Inl x \<Rightarrow> content | Inr content' \<Rightarrow> content')] \<and>
             (filename other \<noteq> ''xl/workbook.xml'' \<and>
              \<not> (remove_macros \<and> filename other = ''xl/vbaProject.bin'') \<longrightarrow>
                [e \<leftarrow> zout. filename (fst e) = filename other] =
                  [(other\<lparr>date_time := even_seconds (date_time other),
                          external_attr := (if external_attr other = 0 then push_bit 16 384
                                            else external_attr other)\<rparr>, data)])"
    by (intro exI[of _ ?zout] conjI) (rule run d o)+
next
  assume a: "filename item = ''content.xml''"
  let ?zout = "concat (map (ods_written lib True) zin)"
  have "[e \<leftarrow> ?zout. filename (fst e) = filename (fst (item, content))] =
          ods_written lib True (item, content)"
    using assms(4,7) by (rule filter_ods_written)
  with a have d: "[e \<leftarrow> ?zout. filename (fst e) = ''content.xml''] =
               [(\<lparr>filename = ''content.xml'', date_time = even_seconds (localtime lib),
                   compress_type = ZIP_DEFLATED, comment = [], extra = [],
                   internal_attr = 0, external_attr = push_bit 16 384\<rparr>,
                 case prune_content lib content of Inl x \<Rightarrow> content | Inr content' \<Rightarrow> content')]"
    by (simp add: ods_written_def fresh_zipinfo_def split: sum.splits)
  have "[e \<leftarrow> ?zout. filename (fst e) = filename (fst (other, data))] =
          ods_written lib True (other, data)"
    using assms(4,8) by (rule filter_ods_written)
  then have o: "filename other \<noteq> ''content.xml'' \<longrightarrow>
                [e \<leftarrow> ?zout. filename (fst e) = filename other] =
                  [(other\<lparr>date_time := even_seconds (date_time other),
                          external_attr := (if external_attr other = 0 then push_bit 16 384
                                            else external_attr other)\<rparr>, data)]"
    by (simp add: ods_written_def as_stored_def)
  have run: "sanitize_ods lib input_file output_file remove_macros True overwrite fs =
            (True, fs(output_file \<mapsto> ZipArchive ?zout))"
    by (rule sanitize_ods_ok[OF assms(1-6)])
  show "\<exists>zout. sanitize_ods lib input_file output_file remove_macros True overwrite fs =
                    (True, fs(output_file \<mapsto> ZipArchive zout)) \<and>
             [e \<leftarrow> zout. filename (fst e) = ''content.xml''] =
               [(\<lparr>filename = ''content.xml'', date_time = even_seconds (localtime lib),
                   compress_type = ZIP_DEFLATED, comment = [], extra = [],
                   internal_attr = 0, external_attr = push_bit 16 384\<rparr>,
                 case prune_content lib content of Inl x \<Rightarrow> content | Inr content' \<Rightarrow> content')] \<and>
             (filename other \<noteq> ''content.xml'' \<longrightarrow>
                [e \<leftarrow> zout. filename (fst e) = filename other] =
                  [(other\<lparr>date_time := even_seconds (date_time other),
                          external_attr := (if external_attr other = 0 then push_bit 16 384
                                            else external_attr other)\<rparr>, data)])"
    by (intro exI[of _ ?zout] conjI) (rule run d o)+
qed

theorem rewritten_descriptor_fresh_metadata_witness:
  "(\<exists>zout. sanitize_xlsx demo_lib ''plain.xlsx'' ''out.xlsx'' True True False demo_fs =
             (True, demo_fs(''out.xlsx'' \<mapsto> ZipArchive zout)) \<and>
      [e \<leftarrow> zout. filename (fst e) = ''xl/workbook.xml''] =
        [(\<lparr>filename = ''xl/workbook.xml'', date_time = (2024, 3, 1, 12, 0, 6),
            compress_type = 8, comment = [], extra = [],
            internal_attr = 0, external_attr = 25165824\<rparr>, plain_book_out)] \<and>
      [e \<leftarrow> zout. filename (fst e) = ''[Content_Types].xml''] =
        [(demo_info ''[Content_Types].xml'', ''<Types/>'')]) \<and>
   (\<exists>zout. sanitize_ods demo_lib ''hidden.ods'' ''out.ods'' True True False demo_fs =
             (True, demo_fs(''out.ods'' \<mapsto> ZipArchive zout)) \<and>
      [e \<leftarrow> zout. filename (fst e) = ''content.xml''] =
        [(\<lparr>filename = ''content.xml'', date_time = (2024, 3, 1, 12, 0, 6),
            compress_type = 8, comment = [], extra = [],
            internal_attr = 0, external_attr = 25165824\<rparr>, hidden_tables_xml)] \<and>
      [e \<leftarrow> zout. filename (fst e) = ''styles.xml''] = [(demo_info ''styles.xml'', ''<styles/>'')])"
proof -
  have now: "even_seconds (localtime demo_lib) = (2024, 3, 1, 12, 0, 6)"
    by (simp add: demo_lib_def even_seconds_def)
  have same: "(demo_info name)\<lparr>date_time := even_seconds (date_time (demo_info name)),
                  external_attr := (if external_attr (demo_info name) = 0 then push_bit 16 384
                                    else external_attr (demo_info name))\<rparr> = demo_info name" for name
    using demo_info_stored(2)[of name] by (simp add: as_stored_def)
  show ?thesis
    using rewritten_descriptor_fresh_metadata[where fs = demo_fs and output_file = "''out.xlsx''"
        and overwrite = False and input_file = "''plain.xlsx''" and zin = plain_book_archive
        and item = "demo_info ''xl/workbook.xml''" and content = plain_book_xml
        and other = "demo_info ''[Content_Types].xml''" and data = "''<Types/>''"
        and lib = demo_lib and remove_macros = True,
        OF _ _ _ demo_archives_distinct(2) demo_archives_decodable(2) demo_clock]
      rewritten_descriptor_fresh_metadata[where fs = demo_fs and output_file = "''out.ods''"
        and overwrite = False and input_file = "''hidden.ods''" and zin = hidden_tables_archive
        and item = "demo_info ''content.xml''" and content = hidden_tables_xml
        and other = "demo_info ''styles.xml''" and data = "''<styles/>''"
        and lib = demo_lib and remove_macros = True,
        OF _ _ _ demo_archives_distinct(5) demo_archives_decodable(5) demo_clock]
    by (simp add: demo_prune now same demo_info_stored(1) demo_fs_def plain_book_archive_def
          hidden_tables_archive_def ZIP_DEFLATED_def)
qed

text \<open>
  Claim C10 as it is worded fails for a copied entry whose \<^verbatim>\<open>external_attr\<close> is 0: \<^verbatim>\<open>zipfile\<close>
  writes such a member with the permissions \<^verbatim>\<open>0o600 << 16\<close>. On the sample archive
  \<^verbatim>\<open>bare.xlsx\<close>, whose members have \<^verbatim>\<open>external_attr\<close> 0, the copied member of the output has
  25165824 there, so it does not keep the \<^verbatim>\<open>ZipInfo\<close> of the source.
\<close>

theorem copied_entry_gains_permissions:
  "sanitize_xlsx demo_lib ''bare.xlsx'' ''out.xlsx'' False True False demo_fs =
     (True, demo_fs(''out.xlsx'' \<mapsto> ZipArchive
        [(\<lparr>filename = ''[Content_Types].xml'', date_time = (2019, 11, 2, 8, 15, 42),
           compress_type = 8, comment = [], extra = [], internal_attr = 0,
           external_attr = 25165824\<rparr>, ''<Types/>''),
         (\<lparr>filename = ''xl/workbook.xml'', date_time = (2024, 3, 1, 12, 0, 6),
           compress_type = 8, comment = [], extra = [], internal_attr = 0,
           external_attr = 25165824\<rparr>, plain_book_out)])) \<and>
   demo_fs ''bare.xlsx'' = Some (ZipArchive
        [(\<lparr>filename = ''[Content_Types].xml'', date_time = (2019, 11, 2, 8, 15, 42),
           compress_type = 8, comment = [], extra = [], internal_attr = 0,
           external_attr = 0\<rparr>, ''<Types/>''),
         (\<lparr>filename = ''xl/workbook.xml'', date_time = (2019, 11, 2, 8, 15, 42),
           compress_type = 8, comment = [], extra = [], internal_attr = 0,
           external_attr = 0\<rparr>, plain_book_xml)])"
proof -
  have "concat (map (xlsx_written demo_lib False True) bare_book_archive) =
        [(\<lparr>filename = ''[Content_Types].xml'', date_time = (2019, 11, 2, 8, 15, 42),
           compress_type = 8, comment = [], extra = [], internal_attr = 0,
           external_attr = 25165824\<rparr>, ''<Types/>''),
         (\<lparr>filename = ''xl/workbook.xml'', date_time = (2024, 3, 1, 12, 0, 6),
           compress_type = 8, comment = [], extra = [], internal_attr = 0,
           external_attr = 25165824\<rparr>, plain_book_out)]"
    by (simp add: bare_book_archive_def xlsx_written_def demo_fresh demo_prune bare_info_def
          as_stored_def even_seconds_def ZIP_DEFLATED_def)
  moreover have "demo_fs ''bare.xlsx'' = Some (ZipArchive bare_book_archive)" "demo_fs ''out.xlsx'' = None"
    by (simp_all add: demo_fs_def)
  ultimately show ?thesis
    using sanitize_xlsx_ok[where fs = demo_fs and output_file = "''out.xlsx''"
        and input_file = "''bare.xlsx''" and zin = bare_book_archive and lib = demo_lib
        and overwrite = False and rm = False and rh = True,
        OF _ _ _ demo_archives_distinct(4) demo_archives_decodable(4) demo_clock]
    by (simp add: bare_book_archive_def bare_info_def ZIP_DEFLATED_def)
qed

end
